theory Spec2Isabelle
  imports Main
begin

section \<open>The order entity (domain/entities/Pedido)\<close>

text \<open>
  JavaScript numbers are modelled as \<open>int\<close> (identifiers, quantities and money in
  minor units; fractions and floating-point rounding are left out); a \<open>Date\<close> is a
  \<open>nat\<close>, the milliseconds since the epoch. An optional field (\<open>undefined\<close> when
  absent) is an \<open>option\<close>. An order owns its list of items: an array or an item
  object shared between two orders, which JavaScript permits, is left out.
\<close>

record PedidoItem =
  productoId :: int
  cantidad :: int
  precioUnitario :: int
  subtotal :: int

datatype EstadoPedido = PENDIENTE | PAGADO | ENVIADO | ENTREGADO | CANCELADO

text \<open>
  \<open>MetodoPago\<close> is a string enum: at run time its values are the strings below, and the
  value of an order read back from storage is whatever string the column holds (the
  \<open>switch\<close> of \<open>procesarPago\<close> has a \<open>default\<close> branch for the others).
\<close>

type_synonym MetodoPago = string

definition STRIPE :: MetodoPago where
  "STRIPE = ''stripe''"

definition PAYPAL :: MetodoPago where
  "PAYPAL = ''paypal''"

definition TRANSFERENCIA :: MetodoPago where
  "TRANSFERENCIA = ''transferencia''"

text \<open>
  The interface \<open>PedidoProps\<close>. The constructor defaults \<open>estado\<close> and \<open>items\<close>
  with \<open>||\<close>, so these two are optional here: \<open>None\<close> is a value that is falsy at
  run time.
\<close>

record PedidoProps =
  props_id :: "int option"
  props_usuarioId :: int
  props_estado :: "EstadoPedido option"
  props_total :: int
  props_direccionEnvio :: string
  props_metodoPago :: MetodoPago
  props_referenciaPago :: "string option"
  props_items :: "PedidoItem list option"
  props_createdAt :: "nat option"
  props_updatedAt :: "nat option"

text \<open>
  The class \<open>Pedido\<close>: its private fields, named by the getters that read them.
\<close>

record Pedido =
  getId :: "int option"
  getUsuarioId :: int
  getEstado :: EstadoPedido
  getTotal :: int
  getDireccionEnvio :: string
  getMetodoPago :: MetodoPago
  getReferenciaPago :: "string option"
  getItems :: "PedidoItem list"
  getCreatedAt :: "nat option"
  getUpdatedAt :: "nat option"

text \<open>
  The constructor. \<open>now_c\<close> and \<open>now_u\<close> are what the two \<open>new Date()\<close> defaults
  would read; a \<open>Date\<close> object is always truthy, so a given timestamp is kept.
\<close>

definition new_Pedido :: "nat \<Rightarrow> nat \<Rightarrow> PedidoProps \<Rightarrow> Pedido" where
  "new_Pedido now_c now_u props =
     \<lparr> getId = props_id props,
       getUsuarioId = props_usuarioId props,
       getEstado = (case props_estado props of Some e \<Rightarrow> e | None \<Rightarrow> PENDIENTE),
       getTotal = props_total props,
       getDireccionEnvio = props_direccionEnvio props,
       getMetodoPago = props_metodoPago props,
       getReferenciaPago = props_referenciaPago props,
       getItems = (case props_items props of Some its \<Rightarrow> its | None \<Rightarrow> []),
       getCreatedAt = (case props_createdAt props of Some d \<Rightarrow> Some d | None \<Rightarrow> Some now_c),
       getUpdatedAt = (case props_updatedAt props of Some d \<Rightarrow> Some d | None \<Rightarrow> Some now_u) \<rparr>"

text \<open>The setters; each one also stamps \<open>updatedAt\<close> with \<open>new Date()\<close>, here \<open>now\<close>.\<close>

definition setUsuarioId :: "nat \<Rightarrow> int \<Rightarrow> Pedido \<Rightarrow> Pedido" where
  "setUsuarioId now usuarioId p = p\<lparr>getUsuarioId := usuarioId, getUpdatedAt := Some now\<rparr>"

definition setEstado :: "nat \<Rightarrow> EstadoPedido \<Rightarrow> Pedido \<Rightarrow> Pedido" where
  "setEstado now estado p = p\<lparr>getEstado := estado, getUpdatedAt := Some now\<rparr>"

definition setTotal :: "nat \<Rightarrow> int \<Rightarrow> Pedido \<Rightarrow> Pedido" where
  "setTotal now t p = p\<lparr>getTotal := t, getUpdatedAt := Some now\<rparr>"

definition setDireccionEnvio :: "nat \<Rightarrow> string \<Rightarrow> Pedido \<Rightarrow> Pedido" where
  "setDireccionEnvio now direccionEnvio p =
     p\<lparr>getDireccionEnvio := direccionEnvio, getUpdatedAt := Some now\<rparr>"

definition setMetodoPago :: "nat \<Rightarrow> MetodoPago \<Rightarrow> Pedido \<Rightarrow> Pedido" where
  "setMetodoPago now metodoPago p = p\<lparr>getMetodoPago := metodoPago, getUpdatedAt := Some now\<rparr>"

definition setReferenciaPago :: "nat \<Rightarrow> string \<Rightarrow> Pedido \<Rightarrow> Pedido" where
  "setReferenciaPago now referenciaPago p =
     p\<lparr>getReferenciaPago := Some referenciaPago, getUpdatedAt := Some now\<rparr>"

text \<open>\<open>this.items.reduce((sum, item) => sum + item.subtotal, 0)\<close>, a left fold.\<close>

definition recalcularTotal :: "Pedido \<Rightarrow> Pedido" where
  "recalcularTotal p = p\<lparr>getTotal := foldl (\<lambda>sum item. sum + subtotal item) 0 (getItems p)\<rparr>"

definition addItem :: "nat \<Rightarrow> PedidoItem \<Rightarrow> Pedido \<Rightarrow> Pedido" where
  "addItem now item p =
     (recalcularTotal (p\<lparr>getItems := getItems p @ [item]\<rparr>))\<lparr>getUpdatedAt := Some now\<rparr>"

definition removeItem :: "nat \<Rightarrow> int \<Rightarrow> Pedido \<Rightarrow> Pedido" where
  "removeItem now pid p =
     (recalcularTotal (p\<lparr>getItems := filter (\<lambda>item. productoId item \<noteq> pid) (getItems p)\<rparr>))
       \<lparr>getUpdatedAt := Some now\<rparr>"

text \<open>
  \<open>updateItemCantidad\<close> mutates in place the object that \<open>Array.find\<close> returns, the
  first item of that product: \<open>assign_first\<close> is that assignment on the array.
\<close>

fun assign_first :: "int \<Rightarrow> int \<Rightarrow> PedidoItem list \<Rightarrow> PedidoItem list" where
  "assign_first pid c [] = []"
| "assign_first pid c (item # rest) =
     (if productoId item = pid
      then item\<lparr>cantidad := c, subtotal := precioUnitario item * c\<rparr> # rest
      else item # assign_first pid c rest)"

definition updateItemCantidad :: "nat \<Rightarrow> int \<Rightarrow> int \<Rightarrow> Pedido \<Rightarrow> Pedido" where
  "updateItemCantidad now pid c p =
     (case find (\<lambda>item. productoId item = pid) (getItems p) of
        None \<Rightarrow> p
      | Some _ \<Rightarrow>
          (recalcularTotal (p\<lparr>getItems := assign_first pid c (getItems p)\<rparr>))
            \<lparr>getUpdatedAt := Some now\<rparr>)"

text \<open>A call of one of the three item methods, with the instant it is made at.\<close>

datatype item_call =
    AddItem nat PedidoItem
  | RemoveItem nat int
  | UpdateItemCantidad nat int int

fun apply_call :: "item_call \<Rightarrow> Pedido \<Rightarrow> Pedido" where
  "apply_call (AddItem now item) p = addItem now item p"
| "apply_call (RemoveItem now pid) p = removeItem now pid p"
| "apply_call (UpdateItemCantidad now pid c) p = updateItemCantidad now pid c p"

text \<open>The orders seen after each call of a sequence, in order.\<close>

fun run_calls :: "item_call list \<Rightarrow> Pedido \<Rightarrow> Pedido list" where
  "run_calls [] p = []"
| "run_calls (c # cs) p = apply_call c p # run_calls cs (apply_call c p)"

text \<open>The total invariant: the stored total is the sum of the items' subtotals.\<close>

definition total_ok :: "Pedido \<Rightarrow> bool" where
  "total_ok p \<longleftrightarrow> getTotal p = sum_list (map subtotal (getItems p))"

section \<open>Creating an order (application/dtos/PedidoDTO)\<close>

record CreatePedidoDTO =
  dto_usuarioId :: int
  dto_direccionEnvio :: string
  dto_metodoPago :: MetodoPago
  dto_referenciaPago :: "string option"
  dto_items :: "PedidoItem list"

definition toEntity :: "nat \<Rightarrow> nat \<Rightarrow> CreatePedidoDTO \<Rightarrow> Pedido" where
  "toEntity now_c now_u dto =
     (let total = foldl (\<lambda>sum item. sum + subtotal item) 0 (dto_items dto)
      in new_Pedido now_c now_u
           \<lparr> props_id = None,
             props_usuarioId = dto_usuarioId dto,
             props_estado = Some PENDIENTE,
             props_total = total,
             props_direccionEnvio = dto_direccionEnvio dto,
             props_metodoPago = dto_metodoPago dto,
             props_referenciaPago = dto_referenciaPago dto,
             props_items = Some (dto_items dto),
             props_createdAt = None,
             props_updatedAt = None \<rparr>)"

section \<open>Storage and the environment\<close>

text \<open>
  The tables the repository's statements address: \<open>pedidos\<close>, keyed by its primary
  key, and \<open>pedido_items\<close>, the item rows of each order. \<open>referencia_pago\<close> is
  \<open>NULL\<close> (\<open>None\<close>) until a statement writes it.
\<close>

record pedido_row =
  row_id :: int
  row_usuario_id :: int
  row_estado :: EstadoPedido
  row_total :: int
  row_direccion_envio :: string
  row_metodo_pago :: MetodoPago
  row_referencia_pago :: "string option"
  row_created_at :: nat
  row_updated_at :: nat

text \<open>
  What the code cannot decide is read from the world: whether the \<open>n\<close>-th statement
  sent to the database raises (\<open>fault_at\<close>, with the message of the exception), and what
  the \<open>n\<close>-th reading of the clock or of \<open>Math.random\<close> returns. \<open>stmt\<close> and
  \<open>reads\<close> count the statements sent and the readings made so far.
\<close>

record world =
  pedidos :: "int \<rightharpoonup> pedido_row"
  pedido_items :: "int \<Rightarrow> PedidoItem list"
  fault_at :: "nat \<Rightarrow> string option"
  stmt :: nat
  date_at :: "nat \<Rightarrow> nat"
  random_at :: "nat \<Rightarrow> nat"
  reads :: nat

text \<open>
  A thrown value: an exception of the storage layer with its message, or the
  \<open>TypeError\<close> of reading a property of \<open>null\<close> or \<open>undefined\<close>.
\<close>

datatype exn = StorageError string | TypeError

type_synonym 'a io = "world \<Rightarrow> (exn + 'a) \<times> world"

definition return_io :: "'a \<Rightarrow> 'a io" where
  "return_io x w = (Inr x, w)"

text \<open>\<open>await m\<close> followed by \<open>k\<close>; a rejected promise skips \<open>k\<close>.\<close>

definition await :: "'a io \<Rightarrow> ('a \<Rightarrow> 'b io) \<Rightarrow> 'b io" where
  "await m k w = (case m w of (Inl e, w') \<Rightarrow> (Inl e, w') | (Inr x, w') \<Rightarrow> k x w')"

text \<open>
  \<open>pool.getConnection()\<close> followed by \<open>connection.execute(...)\<close>: one point where the
  storage layer may raise. A statement that raises has no effect on the tables.
\<close>

definition execute :: "unit io" where
  "execute w =
     (case fault_at w (stmt w) of
        Some m \<Rightarrow> (Inl (StorageError m), w\<lparr>stmt := Suc (stmt w)\<rparr>)
      | None \<Rightarrow> (Inr (), w\<lparr>stmt := Suc (stmt w)\<rparr>))"

definition new_Date :: "world \<Rightarrow> nat \<times> world" where
  "new_Date w = (date_at w (reads w), w\<lparr>reads := Suc (reads w)\<rparr>)"

text \<open>\<open>Math.floor(Math.random() * 1000)\<close>, an integer from 0 to 999.\<close>

definition random_1000 :: "world \<Rightarrow> nat \<times> world" where
  "random_1000 w = (random_at w (reads w) mod 1000, w\<lparr>reads := Suc (reads w)\<rparr>)"

text \<open>A number inside a template string: its decimal digits.\<close>

definition digit_char :: "nat \<Rightarrow> char" where
  "digit_char d = ''0123456789'' ! d"

fun show_nat :: "nat \<Rightarrow> string" where
  "show_nat n = (if n < 10 then [digit_char n] else show_nat (n div 10) @ [digit_char (n mod 10)])"

declare show_nat.simps [simp del]

section \<open>The order repository (MySQLPedidoRepository)\<close>

text \<open>
  \<open>mapToEntity\<close> selects the item rows of the order and calls the constructor on the
  object literal \<open>props_of_row\<close>; both timestamps are given, so the constructor reads
  no clock.
\<close>

definition props_of_row :: "pedido_row \<Rightarrow> PedidoItem list \<Rightarrow> PedidoProps" where
  "props_of_row row its =
     \<lparr> props_id = Some (row_id row),
       props_usuarioId = row_usuario_id row,
       props_estado = Some (row_estado row),
       props_total = row_total row,
       props_direccionEnvio = row_direccion_envio row,
       props_metodoPago = row_metodo_pago row,
       props_referenciaPago = row_referencia_pago row,
       props_items = Some its,
       props_createdAt = Some (row_created_at row),
       props_updatedAt = Some (row_updated_at row) \<rparr>"

definition mapToEntity :: "pedido_row \<Rightarrow> Pedido io" where
  "mapToEntity row =
     await execute (\<lambda>_ w.
       (Inr (new_Pedido (row_created_at row) (row_updated_at row)
               (props_of_row row (pedido_items w (row_id row)))), w))"

definition findById :: "int \<Rightarrow> Pedido option io" where
  "findById ident =
     await execute (\<lambda>_ w.
       (case pedidos w ident of
          None \<Rightarrow> (Inr None, w)
        | Some row \<Rightarrow> await (mapToEntity row) (\<lambda>p. return_io (Some p)) w))"

text \<open>
  The effect on the table of \<open>UPDATE pedidos SET ... WHERE id = ?\<close>: the row of that
  key, if there is one, gets the assignments \<open>f\<close>.
\<close>

definition update_where_id :: "(pedido_row \<Rightarrow> pedido_row) \<Rightarrow> int \<Rightarrow> world \<Rightarrow> world" where
  "update_where_id f ident w =
     (case pedidos w ident of
        None \<Rightarrow> w
      | Some row \<Rightarrow> w\<lparr>pedidos := (pedidos w)(ident \<mapsto> f row)\<rparr>)"

text \<open>
  \<open>UPDATE pedidos SET estado = ?, updated_at = ? WHERE id = ?\<close> with \<open>new Date()\<close>
  as the second parameter, then the re-read of the order, whose result is returned.
  There is no transaction: the statement is committed when it returns.
\<close>

definition updateEstado :: "int \<Rightarrow> EstadoPedido \<Rightarrow> Pedido option io" where
  "updateEstado ident estado w =
     (let (d, w0) = new_Date w
      in await execute (\<lambda>_ w1.
           findById ident
             (update_where_id (\<lambda>row. row\<lparr>row_estado := estado, row_updated_at := d\<rparr>) ident w1))
         w0)"

text \<open>\<open>UPDATE pedidos SET referencia_pago = ?, updated_at = ? WHERE id = ?\<close>, then the re-read.\<close>

definition updateReferenciaPago :: "int \<Rightarrow> string \<Rightarrow> Pedido option io" where
  "updateReferenciaPago ident ref w =
     (let (d, w0) = new_Date w
      in await execute (\<lambda>_ w1.
           findById ident
             (update_where_id
                (\<lambda>row. row\<lparr>row_referencia_pago := Some ref, row_updated_at := d\<rparr>) ident w1))
         w0)"

section \<open>The order service (PedidoService)\<close>

text \<open>\<open>updateEstadoPedido\<close> logs and rethrows what the repository raises.\<close>

definition updateEstadoPedido :: "int \<Rightarrow> EstadoPedido \<Rightarrow> Pedido option io" where
  "updateEstadoPedido ident estado = updateEstado ident estado"

text \<open>
  The payload \<open>paymentInfo\<close> (of type \<open>any\<close>): \<open>null\<close> or \<open>undefined\<close>, or a value
  with properties, here string-valued and listed by name; the service reads the
  property \<open>referencia\<close> only.
\<close>

datatype payment_info = Nullish | Payload "(string \<times> string) list"

text \<open>
  The \<open>error\<close> of a failed result: \<open>NoEncontrado\<close> is "Pedido con ID ... no encontrado",
  \<open>NoPendiente\<close> is "El pedido no esta en estado pendiente", \<open>MetodoNoSoportado\<close> is
  "Metodo de pago no soportado", and \<open>Mensaje e\<close> is the message of a caught exception.
\<close>

datatype pago_error = NoEncontrado int | NoPendiente | MetodoNoSoportado | Mensaje exn

record pago_result =
  success :: bool
  referenciaPago :: "string option"
  error :: "pago_error option"

definition failure :: "pago_error \<Rightarrow> pago_result" where
  "failure e = \<lparr> success = False, referenciaPago = None, error = Some e \<rparr>"

text \<open>The two writes that end the \<open>try\<close> block, and the successful result.\<close>

definition registrarPago :: "int \<Rightarrow> string \<Rightarrow> pago_result io" where
  "registrarPago pedidoId ref =
     await (updateReferenciaPago pedidoId ref) (\<lambda>_.
     await (updateEstado pedidoId PAGADO) (\<lambda>_.
     return_io \<lparr> success = True, referenciaPago = Some ref, error = None \<rparr>))"

text \<open>
  The \<open>switch\<close> on the payment method of the order: the reference to record, or
  \<open>None\<close> in the \<open>default\<close> branch. The \<open>stripe\<close> and \<open>paypal\<close> branches do not
  read the payload; \<open>paymentInfo.referencia || ...\<close> takes the property when it is a
  non-empty string.
\<close>

definition switch_metodoPago :: "MetodoPago \<Rightarrow> payment_info \<Rightarrow> string option io" where
  "switch_metodoPago metodoPago paymentInfo w =
     (if metodoPago = ''stripe'' then
        (let (t, w1) = new_Date w; (r, w2) = random_1000 w1
         in (Inr (Some (''stripe_'' @ show_nat t @ ''_'' @ show_nat r)), w2))
      else if metodoPago = ''paypal'' then
        (let (t, w1) = new_Date w; (r, w2) = random_1000 w1
         in (Inr (Some (''paypal_'' @ show_nat t @ ''_'' @ show_nat r)), w2))
      else if metodoPago = ''transferencia'' then
        (case paymentInfo of
           Nullish \<Rightarrow> (Inl TypeError, w)
         | Payload properties \<Rightarrow>
             (case map_of properties ''referencia'' of
                Some (c # cs) \<Rightarrow> (Inr (Some (c # cs)), w)
              | _ \<Rightarrow>
                  (let (t, w1) = new_Date w
                   in (Inr (Some (''transfer_'' @ show_nat t)), w1))))
      else (Inr None, w))"

text \<open>The \<open>try\<close> block of \<open>procesarPago\<close>.\<close>

definition procesarPago_try :: "int \<Rightarrow> payment_info \<Rightarrow> pago_result io" where
  "procesarPago_try pedidoId paymentInfo =
     await (findById pedidoId) (\<lambda>found.
       case found of
         None \<Rightarrow> return_io (failure (NoEncontrado pedidoId))
       | Some pedido \<Rightarrow>
           if getEstado pedido \<noteq> PENDIENTE then return_io (failure NoPendiente)
           else
             await (switch_metodoPago (getMetodoPago pedido) paymentInfo) (\<lambda>chosen.
               case chosen of
                 None \<Rightarrow> return_io (failure MetodoNoSoportado)
               | Some ref \<Rightarrow> registrarPago pedidoId ref))"

text \<open>The \<open>catch\<close> block turns whatever was thrown into a failed result.\<close>

definition procesarPago :: "int \<Rightarrow> payment_info \<Rightarrow> pago_result io" where
  "procesarPago pedidoId paymentInfo w =
     (case procesarPago_try pedidoId paymentInfo w of
        (Inl e, w') \<Rightarrow> (Inr (failure (Mensaje e)), w')
      | (Inr r, w') \<Rightarrow> (Inr r, w'))"

text \<open>
  The transitions the specification lists as legal (section 4.2); the source has no
  such table.
\<close>

fun spec_legal_transition :: "EstadoPedido \<Rightarrow> EstadoPedido \<Rightarrow> bool" where
  "spec_legal_transition PENDIENTE PAGADO = True"
| "spec_legal_transition PENDIENTE CANCELADO = True"
| "spec_legal_transition PAGADO ENVIADO = True"
| "spec_legal_transition ENVIADO ENTREGADO = True"
| "spec_legal_transition PAGADO CANCELADO = True"
| "spec_legal_transition _ _ = False"

section \<open>Runs of the storage layer\<close>

text \<open>None of the next \<open>n\<close> statements sent to the database raises.\<close>

definition no_fault_next :: "nat \<Rightarrow> world \<Rightarrow> bool" where
  "no_fault_next n w \<longleftrightarrow> list_all (\<lambda>k. fault_at w (stmt w + k) = None) [0..<n]"

text \<open>The two tables hold the same rows in both worlds.\<close>

definition same_tables :: "world \<Rightarrow> world \<Rightarrow> bool" where
  "same_tables w' w \<longleftrightarrow> pedidos w' = pedidos w \<and> pedido_items w' = pedido_items w"

text \<open>
  An outcome reports what was raised: every statement sent between \<open>w\<close> and the
  outcome that raised is the exception the outcome carries.
\<close>

definition raises_reported :: "world \<Rightarrow> (exn + 'a) \<times> world \<Rightarrow> bool" where
  "raises_reported w out \<longleftrightarrow>
     fault_at (snd out) = fault_at w \<and> stmt w \<le> stmt (snd out) \<and>
     (\<forall>k m. stmt w \<le> k \<and> k < stmt (snd out) \<and> fault_at w k = Some m
            \<longrightarrow> fst out = Inl (StorageError m))"

section \<open>Example values\<close>

text \<open>The order of the quantity-update scenario: one item, two units at 50000.\<close>

definition item_ejemplo :: PedidoItem where
  "item_ejemplo = \<lparr> productoId = 1, cantidad = 2, precioUnitario = 50000, subtotal = 100000 \<rparr>"

definition pedido_ejemplo :: Pedido where
  "pedido_ejemplo =
     new_Pedido 0 0
       \<lparr> props_id = Some 1, props_usuarioId = 2, props_estado = Some PENDIENTE,
         props_total = 100000, props_direccionEnvio = ''Calle 123'',
         props_metodoPago = TRANSFERENCIA, props_referenciaPago = None,
         props_items = Some [item_ejemplo], props_createdAt = Some 10, props_updatedAt = Some 10 \<rparr>"

text \<open>An order whose constructor is given a total that its (empty) items do not add up to.\<close>

definition pedido_descuadrado :: Pedido where
  "pedido_descuadrado =
     new_Pedido 0 0
       \<lparr> props_id = Some 2, props_usuarioId = 2, props_estado = Some PENDIENTE,
         props_total = 5, props_direccionEnvio = ''Calle 123'',
         props_metodoPago = TRANSFERENCIA, props_referenciaPago = None,
         props_items = Some [], props_createdAt = Some 10, props_updatedAt = Some 10 \<rparr>"

text \<open>A creation request that already carries a payment reference.\<close>

definition dto_con_referencia :: CreatePedidoDTO where
  "dto_con_referencia =
     \<lparr> dto_usuarioId = 2, dto_direccionEnvio = ''Calle 123'', dto_metodoPago = STRIPE,
       dto_referenciaPago = Some ''ch_1234567890'', dto_items = [item_ejemplo] \<rparr>"

text \<open>
  A stored pending order to be paid by bank transfer, in a world where no statement
  raises; the same world with the sixth statement (the \<open>UPDATE\<close> of \<open>estado\<close> in a
  settlement) raising; the same order to be paid by card; the same order once delivered.
\<close>

definition fila_ejemplo :: pedido_row where
  "fila_ejemplo =
     \<lparr> row_id = 1, row_usuario_id = 2, row_estado = PENDIENTE, row_total = 100000,
       row_direccion_envio = ''Calle 123'', row_metodo_pago = TRANSFERENCIA,
       row_referencia_pago = None, row_created_at = 10, row_updated_at = 10 \<rparr>"

definition mundo_ejemplo :: world where
  "mundo_ejemplo =
     \<lparr> pedidos = [1 \<mapsto> fila_ejemplo],
       pedido_items = (\<lambda>ident. if ident = 1 then [item_ejemplo] else []),
       fault_at = (\<lambda>_. None), stmt = 0,
       date_at = (\<lambda>n. 1000 + n), random_at = (\<lambda>_. 4242), reads = 0 \<rparr>"

definition mundo_fallo_estado :: world where
  "mundo_fallo_estado =
     mundo_ejemplo\<lparr>fault_at := (\<lambda>n. if n = 5 then Some ''Connection lost'' else None)\<rparr>"

definition mundo_stripe :: world where
  "mundo_stripe = mundo_ejemplo\<lparr>pedidos := [1 \<mapsto> fila_ejemplo\<lparr>row_metodo_pago := STRIPE\<rparr>]\<rparr>"

definition mundo_entregado :: world where
  "mundo_entregado =
     mundo_ejemplo\<lparr>pedidos :=
       [1 \<mapsto> fila_ejemplo\<lparr>row_estado := ENTREGADO, row_referencia_pago := Some ''TR-1''\<rparr>]\<rparr>"

section \<open>The total of an order\<close>

lemma foldl_subtotal_acc:
  "foldl (\<lambda>sum item. sum + subtotal item) a xs = a + sum_list (map subtotal xs)"
  by (induction xs arbitrary: a) simp_all

lemma reduce_subtotal:
  "foldl (\<lambda>sum item. sum + subtotal item) 0 xs = sum_list (map subtotal xs)"
  by (simp add: foldl_subtotal_acc)

lemma total_ok_addItem: "total_ok (addItem now item p)"
  by (simp add: total_ok_def addItem_def recalcularTotal_def reduce_subtotal)

lemma total_ok_removeItem: "total_ok (removeItem now pid p)"
  by (simp add: total_ok_def removeItem_def recalcularTotal_def reduce_subtotal)

lemma total_ok_updateItemCantidad_found:
  "find (\<lambda>item. productoId item = pid) (getItems p) = Some it \<Longrightarrow>
   total_ok (updateItemCantidad now pid c p)"
  by (simp add: total_ok_def updateItemCantidad_def recalcularTotal_def reduce_subtotal)

lemma total_ok_updateItemCantidad:
  "total_ok p \<Longrightarrow> total_ok (updateItemCantidad now pid c p)"
  by (simp add: total_ok_def updateItemCantidad_def recalcularTotal_def reduce_subtotal
      split: option.splits)

lemma total_ok_apply_call: "total_ok p \<Longrightarrow> total_ok (apply_call c p)"
  by (cases c) (simp_all add: total_ok_addItem total_ok_removeItem total_ok_updateItemCantidad)

lemma total_ok_run_calls: "total_ok p \<Longrightarrow> q \<in> set (run_calls cs p) \<Longrightarrow> total_ok q"
proof (induction cs arbitrary: p)
  case Nil
  then show ?case by simp
next
  case (Cons c cs)
  from Cons.prems(1) have ok: "total_ok (apply_call c p)"
    by (rule total_ok_apply_call)
  from Cons.prems(2) have "q = apply_call c p \<or> q \<in> set (run_calls cs (apply_call c p))"
    by simp
  then show ?case
    using ok Cons.IH [OF ok] by blast
qed

lemma find_assign_first:
  "find (\<lambda>item. productoId item = pid) xs = Some it \<Longrightarrow>
   find (\<lambda>item. productoId item = pid) (assign_first pid c xs)
     = Some (it\<lparr>cantidad := c, subtotal := precioUnitario it * c\<rparr>)"
  by (induction xs) (auto split: if_splits)

lemma filter_absent:
  "pid \<notin> productoId ` set xs \<Longrightarrow> filter (\<lambda>item. productoId item \<noteq> pid) xs = xs"
  by (induction xs) auto

lemma find_absent:
  "pid \<notin> productoId ` set xs \<Longrightarrow> find (\<lambda>item. productoId item = pid) xs = None"
  by (induction xs) auto

lemma total_ok_pedido_ejemplo: "total_ok pedido_ejemplo"
  by (simp add: total_ok_def pedido_ejemplo_def new_Pedido_def item_ejemplo_def)

text \<open>
  C4, as stated, fails: an order may start with a total that its items do not add up to
  (the constructor stores the total it is given), and \<open>updateItemCantidad\<close> for a
  product the order does not hold returns without recomputing it.
\<close>

theorem total_invariant_counterexample:
  "run_calls [UpdateItemCantidad 20 7 3] pedido_descuadrado = [pedido_descuadrado]
   \<and> \<not> total_ok pedido_descuadrado"
  by (simp add: pedido_descuadrado_def new_Pedido_def updateItemCantidad_def total_ok_def)

text \<open>
  C4, amended. From an order whose total is the sum of its items' subtotals, the total
  is that sum after each call of any sequence of \<open>addItem\<close>, \<open>removeItem\<close> and
  \<open>updateItemCantidad\<close>. \<open>addItem\<close> and \<open>removeItem\<close> establish it whatever the
  total was, and so does \<open>updateItemCantidad\<close> for a product the order holds, which
  sets the quantity of the first item of that product and its subtotal to quantity
  times unit price.
\<close>

theorem total_invariant_item_calls:
  "(total_ok p \<longrightarrow> (\<forall>q \<in> set (run_calls cs p). total_ok q))
   \<and> total_ok (addItem now item p)
   \<and> total_ok (removeItem now pid p)
   \<and> (find (\<lambda>item. productoId item = pid) (getItems p) = Some it \<longrightarrow>
        total_ok (updateItemCantidad now pid c p)
        \<and> find (\<lambda>item. productoId item = pid) (getItems (updateItemCantidad now pid c p))
            = Some (it\<lparr>cantidad := c, subtotal := precioUnitario it * c\<rparr>))"
proof (intro conjI impI ballI)
  fix q assume "total_ok p" and "q \<in> set (run_calls cs p)"
  then show "total_ok q" by (rule total_ok_run_calls)
next
  show "total_ok (addItem now item p)" by (rule total_ok_addItem)
next
  show "total_ok (removeItem now pid p)" by (rule total_ok_removeItem)
next
  assume "find (\<lambda>item. productoId item = pid) (getItems p) = Some it"
  then show "total_ok (updateItemCantidad now pid c p)"
    by (rule total_ok_updateItemCantidad_found)
next
  assume found: "find (\<lambda>item. productoId item = pid) (getItems p) = Some it"
  then show "find (\<lambda>item. productoId item = pid) (getItems (updateItemCantidad now pid c p))
      = Some (it\<lparr>cantidad := c, subtotal := precioUnitario it * c\<rparr>)"
    by (simp add: updateItemCantidad_def recalcularTotal_def find_assign_first)
qed

theorem total_invariant_item_calls_witness:
  "total_ok pedido_ejemplo
   \<and> find (\<lambda>item. productoId item = 1) (getItems pedido_ejemplo) = Some item_ejemplo
   \<and> total_ok (updateItemCantidad 20 1 3 pedido_ejemplo)
   \<and> find (\<lambda>item. productoId item = 1) (getItems (updateItemCantidad 20 1 3 pedido_ejemplo))
       = Some \<lparr> productoId = 1, cantidad = 3, precioUnitario = 50000, subtotal = 150000 \<rparr>
   \<and> getTotal (updateItemCantidad 20 1 3 pedido_ejemplo) = 150000
   \<and> total_ok (removeItem 21 1 (updateItemCantidad 20 1 3 pedido_ejemplo))"
proof -
  have found: "find (\<lambda>item. productoId item = 1) (getItems pedido_ejemplo) = Some item_ejemplo"
    by (simp add: pedido_ejemplo_def new_Pedido_def item_ejemplo_def)
  have calls: "run_calls [UpdateItemCantidad 20 1 3, RemoveItem 21 1] pedido_ejemplo
      = [updateItemCantidad 20 1 3 pedido_ejemplo,
         removeItem 21 1 (updateItemCantidad 20 1 3 pedido_ejemplo)]"
    by simp
  have total: "getTotal (updateItemCantidad 20 1 3 pedido_ejemplo) = 150000"
    by (simp add: updateItemCantidad_def recalcularTotal_def pedido_ejemplo_def new_Pedido_def
        item_ejemplo_def)
  show ?thesis
    using total_invariant_item_calls
      [of pedido_ejemplo "[UpdateItemCantidad 20 1 3, RemoveItem 21 1]" 20 item_ejemplo 1
          item_ejemplo 3]
      total_ok_pedido_ejemplo found calls total
    by (simp add: item_ejemplo_def)
qed

text \<open>
  C9, as stated, fails for \<open>removeItem\<close>: it stamps \<open>updatedAt\<close> and recomputes the
  total even when no item of the product is there to remove.
\<close>

theorem absent_product_counterexample:
  "7 \<notin> productoId ` set (getItems pedido_ejemplo)
   \<and> getUpdatedAt pedido_ejemplo = Some 10
   \<and> getUpdatedAt (removeItem 20 7 pedido_ejemplo) = Some 20
   \<and> removeItem 20 7 pedido_ejemplo \<noteq> pedido_ejemplo"
proof -
  have stamp: "getUpdatedAt (removeItem 20 7 pedido_ejemplo) = Some 20"
    by (simp add: removeItem_def recalcularTotal_def)
  have before: "getUpdatedAt pedido_ejemplo = Some 10"
    by (simp add: pedido_ejemplo_def new_Pedido_def)
  have "removeItem 20 7 pedido_ejemplo \<noteq> pedido_ejemplo"
  proof
    assume "removeItem 20 7 pedido_ejemplo = pedido_ejemplo"
    then have "getUpdatedAt (removeItem 20 7 pedido_ejemplo) = getUpdatedAt pedido_ejemplo"
      by simp
    with stamp before show False by simp
  qed
  with stamp before show ?thesis
    by (simp add: pedido_ejemplo_def new_Pedido_def item_ejemplo_def)
qed

text \<open>
  C9, amended. For a product id that no line item of the order has,
  \<open>updateItemCantidad\<close> returns the order as it was, and \<open>removeItem\<close> keeps the items
  and every other field except two: it stamps \<open>updatedAt\<close> with the time of the call
  and stores the recomputed total, which is the old total when that was the sum of the
  subtotals. Neither has an error path.
\<close>

theorem absent_product_frame:
  "pid \<notin> productoId ` set (getItems p) \<Longrightarrow>
     updateItemCantidad now pid c p = p
     \<and> removeItem now pid p
         = p\<lparr>getTotal := sum_list (map subtotal (getItems p)), getUpdatedAt := Some now\<rparr>
     \<and> (total_ok p \<longrightarrow> removeItem now pid p = p\<lparr>getUpdatedAt := Some now\<rparr>)"
  by (simp add: updateItemCantidad_def removeItem_def recalcularTotal_def reduce_subtotal
      filter_absent find_absent total_ok_def)

theorem absent_product_frame_witness:
  "7 \<notin> productoId ` set (getItems pedido_ejemplo)
   \<and> total_ok pedido_ejemplo
   \<and> updateItemCantidad 20 7 3 pedido_ejemplo = pedido_ejemplo
   \<and> removeItem 20 7 pedido_ejemplo = pedido_ejemplo\<lparr>getUpdatedAt := Some 20\<rparr>"
proof -
  have absent: "7 \<notin> productoId ` set (getItems pedido_ejemplo)"
    by (simp add: pedido_ejemplo_def new_Pedido_def item_ejemplo_def)
  show ?thesis
    using absent_product_frame [OF absent, of 20 3] absent total_ok_pedido_ejemplo
    by blast
qed

lemmas setter_defs = setUsuarioId_def setEstado_def setTotal_def setDireccionEnvio_def
  setMetodoPago_def setReferenciaPago_def

text \<open>
  C5, as stated, fails: the entity has a setter for the total, and its constructor
  stores the total it is given; neither looks at the items.
\<close>

theorem setTotal_counterexample:
  "total_ok pedido_ejemplo \<and> \<not> total_ok (setTotal 20 5 pedido_ejemplo)
   \<and> \<not> total_ok pedido_descuadrado"
  by (simp add: total_ok_def setTotal_def pedido_ejemplo_def pedido_descuadrado_def
      new_Pedido_def item_ejemplo_def)

text \<open>
  C5, amended. Every operation of the entity other than the constructor and \<open>setTotal\<close>
  keeps the total equal to the sum of the items' subtotals: \<open>addItem\<close> appends the
  item and \<open>removeItem\<close> drops the items of the product, and both recompute the
  total; \<open>updateItemCantidad\<close> returns the order as it was when the product is
  absent, and otherwise assigns the first item of the product and recomputes the total;
  the setters of \<open>usuarioId\<close>, \<open>estado\<close>, \<open>direccionEnvio\<close>, \<open>metodoPago\<close> and
  \<open>referenciaPago\<close> leave the total and the items as they are;
  \<open>CreatePedidoDTO.toEntity\<close> builds an order with the items of the request and
  their sum as total. The constructor and \<open>setTotal\<close> store the total they are
  given, whatever the items.
\<close>

theorem total_entity_operations:
  "total_ok (toEntity now_c now_u dto)
   \<and> getItems (toEntity now_c now_u dto) = dto_items dto
   \<and> getTotal (new_Pedido now_c now_u props) = props_total props
   \<and> getItems (new_Pedido now_c now_u props)
       = (case props_items props of Some its \<Rightarrow> its | None \<Rightarrow> [])
   \<and> getTotal (setTotal now t p) = t
   \<and> getItems (setTotal now t p) = getItems p
   \<and> getItems (addItem now item p) = getItems p @ [item]
   \<and> total_ok (addItem now item p)
   \<and> getItems (removeItem now pid p) = filter (\<lambda>item. productoId item \<noteq> pid) (getItems p)
   \<and> total_ok (removeItem now pid p)
   \<and> (find (\<lambda>item. productoId item = pid) (getItems p) = None \<longrightarrow>
        updateItemCantidad now pid c p = p)
   \<and> (find (\<lambda>item. productoId item = pid) (getItems p) \<noteq> None \<longrightarrow>
        getItems (updateItemCantidad now pid c p) = assign_first pid c (getItems p)
        \<and> total_ok (updateItemCantidad now pid c p))
   \<and> getTotal (setUsuarioId now u p) = getTotal p
   \<and> getItems (setUsuarioId now u p) = getItems p
   \<and> getTotal (setEstado now e p) = getTotal p
   \<and> getItems (setEstado now e p) = getItems p
   \<and> getTotal (setDireccionEnvio now d p) = getTotal p
   \<and> getItems (setDireccionEnvio now d p) = getItems p
   \<and> getTotal (setMetodoPago now m p) = getTotal p
   \<and> getItems (setMetodoPago now m p) = getItems p
   \<and> getTotal (setReferenciaPago now r p) = getTotal p
   \<and> getItems (setReferenciaPago now r p) = getItems p
   \<and> (total_ok p \<longrightarrow>
        total_ok (updateItemCantidad now pid c p)
        \<and> total_ok (setUsuarioId now u p)
        \<and> total_ok (setEstado now e p)
        \<and> total_ok (setDireccionEnvio now d p)
        \<and> total_ok (setMetodoPago now m p)
        \<and> total_ok (setReferenciaPago now r p))"
proof -
  have entity: "total_ok (toEntity now_c now_u dto)"
    "getItems (toEntity now_c now_u dto) = dto_items dto"
    by (simp_all add: total_ok_def toEntity_def new_Pedido_def reduce_subtotal)
  have setters: "getTotal (setUsuarioId now u p) = getTotal p"
    "getItems (setUsuarioId now u p) = getItems p"
    "getTotal (setEstado now e p) = getTotal p"
    "getItems (setEstado now e p) = getItems p"
    "getTotal (setDireccionEnvio now d p) = getTotal p"
    "getItems (setDireccionEnvio now d p) = getItems p"
    "getTotal (setMetodoPago now m p) = getTotal p"
    "getItems (setMetodoPago now m p) = getItems p"
    "getTotal (setReferenciaPago now r p) = getTotal p"
    "getItems (setReferenciaPago now r p) = getItems p"
    by (simp_all add: setter_defs)
  have kept: "total_ok p \<longrightarrow>
        total_ok (setUsuarioId now u p)
        \<and> total_ok (setEstado now e p)
        \<and> total_ok (setDireccionEnvio now d p)
        \<and> total_ok (setMetodoPago now m p)
        \<and> total_ok (setReferenciaPago now r p)"
    by (simp add: total_ok_def setters)
  have items: "getItems (addItem now item p) = getItems p @ [item]"
    "getItems (removeItem now pid p) = filter (\<lambda>item. productoId item \<noteq> pid) (getItems p)"
    by (simp_all add: addItem_def removeItem_def recalcularTotal_def)
  have absent: "find (\<lambda>item. productoId item = pid) (getItems p) = None \<longrightarrow>
        updateItemCantidad now pid c p = p"
    by (simp add: updateItemCantidad_def)
  have present: "find (\<lambda>item. productoId item = pid) (getItems p) \<noteq> None \<longrightarrow>
        getItems (updateItemCantidad now pid c p) = assign_first pid c (getItems p)
        \<and> total_ok (updateItemCantidad now pid c p)"
    by (auto simp: updateItemCantidad_def recalcularTotal_def total_ok_def reduce_subtotal)
  show ?thesis
    using entity setters kept items absent present
    by (simp add: new_Pedido_def setTotal_def total_ok_addItem total_ok_removeItem
        total_ok_updateItemCantidad)
qed

theorem total_entity_operations_witness:
  "total_ok pedido_ejemplo
   \<and> find (\<lambda>item. productoId item = 1) (getItems pedido_ejemplo) \<noteq> None
   \<and> find (\<lambda>item. productoId item = 7) (getItems pedido_ejemplo) = None
   \<and> total_ok (updateItemCantidad 20 1 3 pedido_ejemplo)
   \<and> getItems (updateItemCantidad 20 1 3 pedido_ejemplo)
       = [\<lparr> productoId = 1, cantidad = 3, precioUnitario = 50000, subtotal = 150000 \<rparr>]
   \<and> updateItemCantidad 20 7 3 pedido_ejemplo = pedido_ejemplo
   \<and> total_ok (setEstado 20 PAGADO pedido_ejemplo)
   \<and> getItems (setEstado 20 PAGADO pedido_ejemplo) = [item_ejemplo]
   \<and> getTotal (setReferenciaPago 20 ''TR-1'' pedido_ejemplo) = 100000
   \<and> getTotal (setTotal 20 5 pedido_ejemplo) = 5"
proof -
  have present: "find (\<lambda>item. productoId item = 1) (getItems pedido_ejemplo) \<noteq> None"
    and absent: "find (\<lambda>item. productoId item = 7) (getItems pedido_ejemplo) = None"
    and its: "getItems pedido_ejemplo = [item_ejemplo]"
    and tot: "getTotal pedido_ejemplo = 100000"
    by (simp_all add: pedido_ejemplo_def new_Pedido_def item_ejemplo_def)
  have assigned: "assign_first 1 3 [item_ejemplo]
      = [\<lparr> productoId = 1, cantidad = 3, precioUnitario = 50000, subtotal = 150000 \<rparr>]"
    by (simp add: item_ejemplo_def)
  note present_case = total_entity_operations
      [where now_c = 0 and now_u = 0 and dto = dto_con_referencia
         and props = "props_of_row fila_ejemplo []" and item = item_ejemplo and u = 2
         and d = "''Calle 123''" and m = STRIPE
         and p = pedido_ejemplo and now = 20 and pid = 1 and c = 3 and e = PAGADO
         and r = "''TR-1''" and t = 5]
  note absent_case = total_entity_operations
      [where now_c = 0 and now_u = 0 and dto = dto_con_referencia
         and props = "props_of_row fila_ejemplo []" and item = item_ejemplo and u = 2
         and d = "''Calle 123''" and m = STRIPE
         and p = pedido_ejemplo and now = 20 and pid = 7 and c = 3 and e = PAGADO
         and r = "''TR-1''" and t = 5]
  from present_case present
  have updated: "getItems (updateItemCantidad 20 1 3 pedido_ejemplo)
        = assign_first 1 3 (getItems pedido_ejemplo)"
    and updated_ok: "total_ok (updateItemCantidad 20 1 3 pedido_ejemplo)"
    by blast+
  from absent_case absent
  have unchanged: "updateItemCantidad 20 7 3 pedido_ejemplo = pedido_ejemplo"
    by blast
  from present_case total_ok_pedido_ejemplo
  have setters: "total_ok (setEstado 20 PAGADO pedido_ejemplo)"
    "getItems (setEstado 20 PAGADO pedido_ejemplo) = getItems pedido_ejemplo"
    "getTotal (setReferenciaPago 20 ''TR-1'' pedido_ejemplo) = getTotal pedido_ejemplo"
    "getTotal (setTotal 20 5 pedido_ejemplo) = 5"
    by blast+
  from updated have updated_items: "getItems (updateItemCantidad 20 1 3 pedido_ejemplo)
       = [\<lparr> productoId = 1, cantidad = 3, precioUnitario = 50000, subtotal = 150000 \<rparr>]"
    by (simp only: its assigned)
  from setters(2) have kept_items: "getItems (setEstado 20 PAGADO pedido_ejemplo) = [item_ejemplo]"
    by (simp only: its)
  from setters(3) have kept_total: "getTotal (setReferenciaPago 20 ''TR-1'' pedido_ejemplo) = 100000"
    by (simp only: tot)
  show ?thesis
    using total_ok_pedido_ejemplo present absent updated_items updated_ok unchanged
      setters(1,4) kept_items kept_total
    by blast
qed

section \<open>The storage layer and the settlement\<close>

subsection \<open>Statements and what they raise\<close>

lemma raises_reported_return: "raises_reported w (Inr x, w)"
  by (simp add: raises_reported_def)

lemma raises_reported_thrown: "raises_reported w (Inl e, w)"
  by (auto simp: raises_reported_def)

lemma raises_reported_execute: "raises_reported w (execute w)"
  by (auto simp: raises_reported_def execute_def less_Suc_eq_le split: option.splits)

lemma raises_reported_from:
  assumes "fault_at w0 = fault_at w" and "stmt w0 = stmt w" and "raises_reported w0 out"
  shows "raises_reported w out"
  using assms by (simp add: raises_reported_def)

lemma raises_reported_await:
  assumes first: "raises_reported w (m w)"
    and rest: "\<And>x w1. m w = (Inr x, w1) \<Longrightarrow> raises_reported w1 (k x w1)"
  shows "raises_reported w (await m k w)"
proof (cases "m w")
  case (Pair r w1)
  show ?thesis
  proof (cases r)
    case (Inl e)
    with Pair first show ?thesis by (auto simp: await_def raises_reported_def)
  next
    case (Inr x)
    with Pair have run: "await m k w = k x w1" by (simp add: await_def)
    from Inr Pair have k: "raises_reported w1 (k x w1)" by (simp add: rest)
    from first Pair Inr have m: "fault_at w1 = fault_at w" "stmt w \<le> stmt w1"
      "\<And>j msg. stmt w \<le> j \<Longrightarrow> j < stmt w1 \<Longrightarrow> fault_at w j = Some msg \<Longrightarrow> False"
      by (auto simp: raises_reported_def)
    show ?thesis
      unfolding run raises_reported_def
    proof (intro conjI allI impI)
      show "fault_at (snd (k x w1)) = fault_at w"
        using k m(1) by (simp add: raises_reported_def)
      show "stmt w \<le> stmt (snd (k x w1))"
        using k m(2) by (simp add: raises_reported_def)
    next
      fix j msg
      assume j: "stmt w \<le> j \<and> j < stmt (snd (k x w1)) \<and> fault_at w j = Some msg"
      then have "\<not> j < stmt w1" using m(3) by blast
      then have "stmt w1 \<le> j" by simp
      with j k m(1) show "fst (k x w1) = Inl (StorageError msg)"
        unfolding raises_reported_def by metis
    qed
  qed
qed

lemma raises_reported_mapToEntity: "raises_reported w (mapToEntity row w)"
  unfolding mapToEntity_def
  by (rule raises_reported_await) (simp_all add: raises_reported_execute raises_reported_return)

lemma raises_reported_findById: "raises_reported w (findById ident w)"
  unfolding findById_def
proof (rule raises_reported_await)
  show "raises_reported w (execute w)" by (rule raises_reported_execute)
next
  fix x w1
  show "raises_reported w1
     (case pedidos w1 ident of None \<Rightarrow> (Inr None, w1)
      | Some row \<Rightarrow> await (mapToEntity row) (\<lambda>p. return_io (Some p)) w1)"
  proof (cases "pedidos w1 ident")
    case None
    then show ?thesis by (simp add: raises_reported_return)
  next
    case (Some row)
    have "raises_reported w1 (await (mapToEntity row) (\<lambda>p. return_io (Some p)) w1)"
      by (rule raises_reported_await)
        (simp_all add: raises_reported_mapToEntity return_io_def raises_reported_return)
    with Some show ?thesis by simp
  qed
qed

lemma update_where_id_frame:
  "fault_at (update_where_id f ident w) = fault_at w"
  "stmt (update_where_id f ident w) = stmt w"
  "pedido_items (update_where_id f ident w) = pedido_items w"
  "reads (update_where_id f ident w) = reads w"
  by (simp_all add: update_where_id_def split: option.splits)

lemma raises_reported_write:
  "raises_reported w0 (await execute (\<lambda>_ w1. findById ident (update_where_id f ident w1)) w0)"
proof (rule raises_reported_await)
  show "raises_reported w0 (execute w0)" by (rule raises_reported_execute)
next
  fix x w1
  show "raises_reported w1 (findById ident (update_where_id f ident w1))"
    by (rule raises_reported_from [OF _ _ raises_reported_findById])
      (simp_all add: update_where_id_frame)
qed

lemma raises_reported_updateEstado: "raises_reported w (updateEstado ident estado w)"
  unfolding updateEstado_def new_Date_def
  by (simp, rule raises_reported_from [OF _ _ raises_reported_write]) simp_all

lemma raises_reported_updateReferenciaPago:
  "raises_reported w (updateReferenciaPago ident ref w)"
  unfolding updateReferenciaPago_def new_Date_def
  by (simp, rule raises_reported_from [OF _ _ raises_reported_write]) simp_all

lemma raises_reported_registrarPago: "raises_reported w (registrarPago pedidoId ref w)"
  unfolding registrarPago_def
  by (intro raises_reported_await raises_reported_updateReferenciaPago
      raises_reported_updateEstado) (simp add: return_io_def raises_reported_return)

subsection \<open>What the repository reads and writes\<close>

lemma findById_outcome:
  assumes "findById ident w = (r, w')"
  shows "pedidos w' = pedidos w" and "pedido_items w' = pedido_items w"
    and "date_at w' = date_at w" and "random_at w' = random_at w" and "reads w' = reads w"
    and "r = Inr None \<Longrightarrow> pedidos w ident = None"
    and "r = Inr (Some p) \<Longrightarrow>
          \<exists>row. pedidos w ident = Some row \<and>
            p = new_Pedido (row_created_at row) (row_updated_at row)
                  (props_of_row row (pedido_items w (row_id row)))"
  using assms
  by (auto simp: findById_def mapToEntity_def execute_def await_def return_io_def
      split: option.splits)

lemma no_fault_nextD:
  "no_fault_next n w \<Longrightarrow> k < n \<Longrightarrow> fault_at w (stmt w + k) = None"
  by (simp add: no_fault_next_def list_all_iff)

lemma no_fault_next_shift:
  assumes "no_fault_next (a + b) w" and "fault_at w' = fault_at w" and "stmt w' = stmt w + a"
  shows "no_fault_next b w'"
  using assms by (simp add: no_fault_next_def list_all_iff add.assoc)

lemma no_fault_next_less:
  "no_fault_next n w \<Longrightarrow> m \<le> n \<Longrightarrow> no_fault_next m w"
  by (simp add: no_fault_next_def list_all_iff)

lemma findById_ok:
  assumes "no_fault_next 2 w" and "pedidos w ident = Some row"
  shows "findById ident w =
    (Inr (Some (new_Pedido (row_created_at row) (row_updated_at row)
                   (props_of_row row (pedido_items w (row_id row))))),
     w\<lparr>stmt := stmt w + 2\<rparr>)"
proof -
  have "fault_at w (stmt w) = None" "fault_at w (Suc (stmt w)) = None"
    using no_fault_nextD [OF assms(1), of 0] no_fault_nextD [OF assms(1), of 1] by simp_all
  with assms(2) show ?thesis
    by (simp add: findById_def mapToEntity_def execute_def await_def return_io_def)
qed

lemma pedidos_update_where_id:
  "pedidos (update_where_id f ident w) =
     (case pedidos w ident of None \<Rightarrow> pedidos w | Some row \<Rightarrow> (pedidos w)(ident \<mapsto> f row))"
  by (simp add: update_where_id_def split: option.splits)

lemma write_outcome:
  assumes "await execute (\<lambda>_ w1. findById ident (update_where_id f ident w1)) w0 = (r, w')"
  shows "pedido_items w' = pedido_items w0" and "date_at w' = date_at w0"
    and "random_at w' = random_at w0" and "reads w' = reads w0"
    and "(\<exists>e. r = Inl e) \<and> pedidos w' = pedidos w0
         \<or> pedidos w' = pedidos (update_where_id f ident w0)"
proof -
  obtain x w1 where ex: "execute w0 = (x, w1)" by (cases "execute w0")
  then have w1: "w1 = w0\<lparr>stmt := Suc (stmt w0)\<rparr>"
    by (auto simp: execute_def split: option.splits)
  have frame: "pedido_items w' = pedido_items w0 \<and> date_at w' = date_at w0
      \<and> random_at w' = random_at w0 \<and> reads w' = reads w0
      \<and> ((\<exists>e. r = Inl e) \<and> pedidos w' = pedidos w0
         \<or> pedidos w' = pedidos (update_where_id f ident w0))"
  proof (cases x)
    case (Inl e)
    with ex assms w1 show ?thesis by (auto simp: await_def)
  next
    case (Inr u)
    with ex assms have "findById ident (update_where_id f ident w1) = (r, w')"
      by (simp add: await_def)
    from findById_outcome(1-5) [OF this] show ?thesis
      by (simp add: w1 update_where_id_frame pedidos_update_where_id update_where_id_def
          split: option.splits)
  qed
  then show "pedido_items w' = pedido_items w0" and "date_at w' = date_at w0"
    and "random_at w' = random_at w0" and "reads w' = reads w0"
    and "(\<exists>e. r = Inl e) \<and> pedidos w' = pedidos w0
         \<or> pedidos w' = pedidos (update_where_id f ident w0)"
    by simp_all
qed

lemma write_ok:
  assumes "no_fault_next 3 w0" and "pedidos w0 ident = Some row"
  shows "await execute (\<lambda>_ w1. findById ident (update_where_id f ident w1)) w0 =
    (Inr (Some (new_Pedido (row_created_at (f row)) (row_updated_at (f row))
                   (props_of_row (f row) (pedido_items w0 (row_id (f row)))))),
     w0\<lparr>pedidos := (pedidos w0)(ident \<mapsto> f row), stmt := stmt w0 + 3\<rparr>)"
proof -
  let ?w1 = "w0\<lparr>stmt := Suc (stmt w0)\<rparr>"
  let ?w2 = "update_where_id f ident ?w1"
  have f0: "fault_at w0 (stmt w0) = None"
    using no_fault_nextD [OF assms(1), of 0] by simp
  have w2: "?w2 = w0\<lparr>pedidos := (pedidos w0)(ident \<mapsto> f row), stmt := Suc (stmt w0)\<rparr>"
    using assms(2) by (simp add: update_where_id_def)
  have "no_fault_next (1 + 2) w0"
    using assms(1) by (simp add: numeral_3_eq_3)
  then have "no_fault_next 2 ?w2"
    by (rule no_fault_next_shift) (simp_all add: update_where_id_frame)
  moreover have "pedidos ?w2 ident = Some (f row)"
    by (simp add: w2)
  ultimately have "findById ident ?w2 =
    (Inr (Some (new_Pedido (row_created_at (f row)) (row_updated_at (f row))
                   (props_of_row (f row) (pedido_items ?w2 (row_id (f row)))))),
     ?w2\<lparr>stmt := stmt ?w2 + 2\<rparr>)"
    by (rule findById_ok)
  then show ?thesis
    using f0 by (simp add: await_def execute_def w2)
qed

lemma updateEstado_outcome:
  assumes "updateEstado ident estado w = (r, w')"
  shows "pedido_items w' = pedido_items w"
    and "(\<exists>e. r = Inl e) \<and> pedidos w' = pedidos w
         \<or> pedidos w' = pedidos (update_where_id
               (\<lambda>row. row\<lparr>row_estado := estado, row_updated_at := date_at w (reads w)\<rparr>) ident w)"
proof -
  let ?f = "\<lambda>row. row\<lparr>row_estado := estado, row_updated_at := date_at w (reads w)\<rparr>"
  let ?w0 = "w\<lparr>reads := Suc (reads w)\<rparr>"
  from assms have run:
    "await execute (\<lambda>_ w1. findById ident (update_where_id ?f ident w1)) ?w0 = (r, w')"
    by (simp add: updateEstado_def new_Date_def)
  from write_outcome(1) [OF run] show "pedido_items w' = pedido_items w" by simp
  from write_outcome(5) [OF run]
  show "(\<exists>e. r = Inl e) \<and> pedidos w' = pedidos w
         \<or> pedidos w' = pedidos (update_where_id ?f ident w)"
    by (simp add: pedidos_update_where_id split: option.splits)
qed

lemma updateReferenciaPago_outcome:
  assumes "updateReferenciaPago ident ref w = (r, w')"
  shows "pedido_items w' = pedido_items w"
    and "(\<exists>e. r = Inl e) \<and> pedidos w' = pedidos w
         \<or> pedidos w' = pedidos (update_where_id
               (\<lambda>row. row\<lparr>row_referencia_pago := Some ref, row_updated_at := date_at w (reads w)\<rparr>)
               ident w)"
proof -
  let ?f = "\<lambda>row. row\<lparr>row_referencia_pago := Some ref, row_updated_at := date_at w (reads w)\<rparr>"
  let ?w0 = "w\<lparr>reads := Suc (reads w)\<rparr>"
  from assms have run:
    "await execute (\<lambda>_ w1. findById ident (update_where_id ?f ident w1)) ?w0 = (r, w')"
    by (simp add: updateReferenciaPago_def new_Date_def)
  from write_outcome(1) [OF run] show "pedido_items w' = pedido_items w" by simp
  from write_outcome(5) [OF run]
  show "(\<exists>e. r = Inl e) \<and> pedidos w' = pedidos w
         \<or> pedidos w' = pedidos (update_where_id ?f ident w)"
    by (simp add: pedidos_update_where_id split: option.splits)
qed

lemma updateEstado_ok:
  assumes "no_fault_next 3 w" and "pedidos w ident = Some row"
  shows "updateEstado ident estado w =
    (Inr (Some (new_Pedido (row_created_at row) (date_at w (reads w))
                  (props_of_row (row\<lparr>row_estado := estado, row_updated_at := date_at w (reads w)\<rparr>)
                     (pedido_items w (row_id row))))),
     w\<lparr>pedidos := (pedidos w)(ident \<mapsto>
            row\<lparr>row_estado := estado, row_updated_at := date_at w (reads w)\<rparr>),
       stmt := stmt w + 3, reads := Suc (reads w)\<rparr>)"
proof -
  let ?w0 = "w\<lparr>reads := Suc (reads w)\<rparr>"
  have "no_fault_next 3 ?w0" "pedidos ?w0 ident = Some row"
    using assms by (simp_all add: no_fault_next_def)
  from write_ok [OF this] show ?thesis
    by (simp add: updateEstado_def new_Date_def)
qed

lemma updateReferenciaPago_ok:
  assumes "no_fault_next 3 w" and "pedidos w ident = Some row"
  shows "updateReferenciaPago ident ref w =
    (Inr (Some (new_Pedido (row_created_at row) (date_at w (reads w))
                  (props_of_row
                     (row\<lparr>row_referencia_pago := Some ref, row_updated_at := date_at w (reads w)\<rparr>)
                     (pedido_items w (row_id row))))),
     w\<lparr>pedidos := (pedidos w)(ident \<mapsto>
            row\<lparr>row_referencia_pago := Some ref, row_updated_at := date_at w (reads w)\<rparr>),
       stmt := stmt w + 3, reads := Suc (reads w)\<rparr>)"
proof -
  let ?w0 = "w\<lparr>reads := Suc (reads w)\<rparr>"
  have "no_fault_next 3 ?w0" "pedidos ?w0 ident = Some row"
    using assms by (simp_all add: no_fault_next_def)
  from write_ok [OF this] show ?thesis
    by (simp add: updateReferenciaPago_def new_Date_def)
qed

text \<open>The row of a settled order.\<close>

lemma registrarPago_Inr:
  assumes run: "registrarPago pedidoId ref w = (Inr res, w')"
    and row: "pedidos w pedidoId = Some row"
  shows "res = \<lparr> success = True, referenciaPago = Some ref, error = None \<rparr>"
    and "pedido_items w' = pedido_items w"
    and "\<exists>d1 d2. pedidos w' = (pedidos w)(pedidoId \<mapsto>
           row\<lparr>row_referencia_pago := Some ref, row_updated_at := d1,
                row_estado := PAGADO, row_updated_at := d2\<rparr>)"
proof -
  obtain r1 w1 where u1: "updateReferenciaPago pedidoId ref w = (r1, w1)"
    by (cases "updateReferenciaPago pedidoId ref w")
  from run u1 obtain x1 where r1: "r1 = Inr x1"
    by (cases r1) (simp_all add: registrarPago_def await_def)
  obtain r2 w2 where u2: "updateEstado pedidoId PAGADO w1 = (r2, w2)"
    by (cases "updateEstado pedidoId PAGADO w1")
  from run u1 r1 u2 obtain x2 where r2: "r2 = Inr x2"
    by (cases r2) (simp_all add: registrarPago_def await_def)
  from run u1 r1 u2 r2 have fin: "res = \<lparr> success = True, referenciaPago = Some ref, error = None \<rparr>"
    "w' = w2"
    by (simp_all add: registrarPago_def await_def return_io_def)
  then show "res = \<lparr> success = True, referenciaPago = Some ref, error = None \<rparr>" by simp
  from updateReferenciaPago_outcome(1) [OF u1] updateEstado_outcome(1) [OF u2] fin
  show "pedido_items w' = pedido_items w" by simp
  let ?d1 = "date_at w (reads w)" and ?d2 = "date_at w1 (reads w1)"
  from updateReferenciaPago_outcome(2) [OF u1] r1 row
  have p1: "pedidos w1 = (pedidos w)(pedidoId \<mapsto>
       row\<lparr>row_referencia_pago := Some ref, row_updated_at := ?d1\<rparr>)"
    by (simp add: pedidos_update_where_id)
  from updateEstado_outcome(2) [OF u2] r2 p1
  have "pedidos w2 = (pedidos w)(pedidoId \<mapsto>
       row\<lparr>row_referencia_pago := Some ref, row_updated_at := ?d1,
            row_estado := PAGADO, row_updated_at := ?d2\<rparr>)"
    by (simp add: pedidos_update_where_id)
  with fin show "\<exists>d1 d2. pedidos w' = (pedidos w)(pedidoId \<mapsto>
           row\<lparr>row_referencia_pago := Some ref, row_updated_at := d1,
                row_estado := PAGADO, row_updated_at := d2\<rparr>)"
    by blast
qed

lemma registrarPago_ok:
  assumes "no_fault_next 6 w" and "pedidos w pedidoId = Some row"
  shows "registrarPago pedidoId ref w =
    (Inr \<lparr> success = True, referenciaPago = Some ref, error = None \<rparr>,
     w\<lparr>pedidos := (pedidos w)(pedidoId \<mapsto>
            row\<lparr>row_referencia_pago := Some ref, row_estado := PAGADO,
                 row_updated_at := date_at w (Suc (reads w))\<rparr>),
       stmt := stmt w + 6, reads := Suc (Suc (reads w))\<rparr>)"
proof -
  let ?row1 = "row\<lparr>row_referencia_pago := Some ref, row_updated_at := date_at w (reads w)\<rparr>"
  let ?w1 = "w\<lparr>pedidos := (pedidos w)(pedidoId \<mapsto> ?row1), stmt := stmt w + 3,
                reads := Suc (reads w)\<rparr>"
  have six: "no_fault_next (3 + 3) w" using assms(1) by simp
  have first: "no_fault_next 3 w"
    by (rule no_fault_next_less [OF assms(1)]) simp
  have second: "no_fault_next 3 ?w1"
    by (rule no_fault_next_shift [OF six]) simp_all
  have u1: "updateReferenciaPago pedidoId ref w = (Inr (Some (new_Pedido (row_created_at row) (date_at w (reads w))
                  (props_of_row ?row1 (pedido_items w (row_id row))))), ?w1)"
    by (rule updateReferenciaPago_ok [OF first assms(2)])
  have "pedidos ?w1 pedidoId = Some ?row1" by simp
  from updateEstado_ok [OF second this, of PAGADO] u1
  show ?thesis
    by (simp add: registrarPago_def await_def return_io_def)
qed

lemma getEstado_new_Pedido_row:
  "getEstado (new_Pedido c u (props_of_row row its)) = row_estado row"
  "getMetodoPago (new_Pedido c u (props_of_row row its)) = row_metodo_pago row"
  by (simp_all add: new_Pedido_def props_of_row_def)

lemma switch_metodoPago_frame:
  "pedidos (snd (switch_metodoPago metodo info w)) = pedidos w"
  "pedido_items (snd (switch_metodoPago metodo info w)) = pedido_items w"
  "fault_at (snd (switch_metodoPago metodo info w)) = fault_at w"
  "stmt (snd (switch_metodoPago metodo info w)) = stmt w"
  by (simp_all add: switch_metodoPago_def new_Date_def random_1000_def
      split: payment_info.split option.split list.split)

lemma switch_metodoPago_outcome:
  assumes "switch_metodoPago metodo info w = (r, w')"
  shows "pedidos w' = pedidos w" and "pedido_items w' = pedido_items w"
    and "fault_at w' = fault_at w" and "stmt w' = stmt w"
  using switch_metodoPago_frame [of metodo info w] assms by simp_all

text \<open>A successful run of the \<open>try\<close> block ends in the two writes, on a pending order.\<close>

lemma procesarPago_try_success:
  assumes run: "procesarPago_try pedidoId info w = (Inr res, w')" and ok: "success res"
  shows "\<exists>row ref w2. pedidos w pedidoId = Some row \<and> row_estado row = PENDIENTE
           \<and> same_tables w2 w \<and> registrarPago pedidoId ref w2 = (Inr res, w')"
proof -
  obtain r w1 where fb: "findById pedidoId w = (r, w1)"
    by (cases "findById pedidoId w")
  note frame = findById_outcome(1,2) [OF fb]
  from run fb obtain found where r: "r = Inr found"
    by (cases r) (simp_all add: procesarPago_try_def await_def)
  from run fb r ok obtain pedido where found: "found = Some pedido"
    by (cases found) (auto simp: procesarPago_try_def await_def failure_def return_io_def)
  from findById_outcome(7) [OF fb, of pedido] r found
  obtain row where row: "pedidos w pedidoId = Some row"
    and pedido: "pedido = new_Pedido (row_created_at row) (row_updated_at row)
                   (props_of_row row (pedido_items w (row_id row)))"
    by auto
  from run fb r found ok have pend: "getEstado pedido = PENDIENTE"
    by (auto simp: procesarPago_try_def await_def failure_def return_io_def split: if_splits)
  then have estado: "row_estado row = PENDIENTE"
    by (simp add: pedido getEstado_new_Pedido_row)
  obtain c w2 where sw: "switch_metodoPago (getMetodoPago pedido) info w1 = (c, w2)"
    by (cases "switch_metodoPago (getMetodoPago pedido) info w1")
  from run fb r found pend sw obtain chosen where c: "c = Inr chosen"
    by (cases c) (simp_all add: procesarPago_try_def await_def)
  from run fb r found pend sw c ok obtain ref where chosen: "chosen = Some ref"
    by (cases chosen) (auto simp: procesarPago_try_def await_def failure_def return_io_def)
  from run fb r found pend sw c chosen have "registrarPago pedidoId ref w2 = (Inr res, w')"
    by (simp add: procesarPago_try_def await_def)
  moreover from switch_metodoPago_outcome(1,2) [OF sw] frame have "same_tables w2 w"
    by (simp add: same_tables_def)
  ultimately show ?thesis using row estado by blast
qed

lemma procesarPago_success_paid:
  assumes run: "procesarPago pedidoId info w = (Inr res, w')" and ok: "success res"
  shows "\<exists>row ref d1 d2. pedidos w pedidoId = Some row \<and> row_estado row = PENDIENTE
           \<and> referenciaPago res = Some ref
           \<and> pedidos w' = (pedidos w)(pedidoId \<mapsto>
                 row\<lparr>row_referencia_pago := Some ref, row_updated_at := d1,
                      row_estado := PAGADO, row_updated_at := d2\<rparr>)
           \<and> pedido_items w' = pedido_items w"
proof -
  from run ok have "procesarPago_try pedidoId info w = (Inr res, w')"
    by (auto simp: procesarPago_def failure_def split: prod.splits sum.splits)
  from procesarPago_try_success [OF this ok]
  obtain row ref w2 where row: "pedidos w pedidoId = Some row" "row_estado row = PENDIENTE"
    and w2: "same_tables w2 w" and reg: "registrarPago pedidoId ref w2 = (Inr res, w')"
    by blast
  from row(1) w2 have row2: "pedidos w2 pedidoId = Some row"
    by (simp add: same_tables_def)
  from registrarPago_Inr [OF reg row2] w2 row show ?thesis
    by (auto simp: same_tables_def)
qed

text \<open>A settlement attempt on an order that is not pending.\<close>

lemma procesarPago_not_pending:
  assumes row: "pedidos w pedidoId = Some row" and estado: "row_estado row \<noteq> PENDIENTE"
  shows "same_tables (snd (procesarPago pedidoId info w)) w"
    and "\<exists>res. fst (procesarPago pedidoId info w) = Inr res \<and> \<not> success res"
    and "no_fault_next 2 w \<Longrightarrow> fst (procesarPago pedidoId info w) = Inr (failure NoPendiente)"
proof -
  obtain r w1 where fb: "findById pedidoId w = (r, w1)"
    by (cases "findById pedidoId w")
  note frame = findById_outcome(1,2) [OF fb]
  have out: "procesarPago pedidoId info w =
      (case r of Inl e \<Rightarrow> (Inr (failure (Mensaje e)), w1)
       | Inr found \<Rightarrow> (Inr (failure NoPendiente), w1))"
  proof (cases r)
    case (Inl e)
    with fb show ?thesis
      by (simp add: procesarPago_def procesarPago_try_def await_def)
  next
    case (Inr found)
    show ?thesis
    proof (cases found)
      case None
      with Inr findById_outcome(6) [OF fb] row show ?thesis by simp
    next
      case (Some pedido)
      with Inr findById_outcome(7) [OF fb, of pedido] row estado
      have "getEstado pedido \<noteq> PENDIENTE"
        by (auto simp: getEstado_new_Pedido_row)
      with fb Inr Some show ?thesis
        by (simp add: procesarPago_def procesarPago_try_def await_def return_io_def)
    qed
  qed
  from out frame show "same_tables (snd (procesarPago pedidoId info w)) w"
    by (cases r) (simp_all add: same_tables_def)
  from out show "\<exists>res. fst (procesarPago pedidoId info w) = Inr res \<and> \<not> success res"
    by (cases r) (simp_all add: failure_def)
  assume "no_fault_next 2 w"
  from findById_ok [OF this row] fb out
  show "fst (procesarPago pedidoId info w) = Inr (failure NoPendiente)"
    by simp
qed

lemma await_Inr:
  assumes "await m k w = (Inr y, w')"
  obtains x w1 where "m w = (Inr x, w1)" and "k x w1 = (Inr y, w')"
  using assms by (auto simp: await_def split: prod.splits sum.splits)

lemma registrarPago_result:
  assumes "registrarPago pedidoId ref w = (Inr res, w')"
  shows "res = \<lparr> success = True, referenciaPago = Some ref, error = None \<rparr>"
proof -
  from assms obtain x w1 where
    "await (updateEstado pedidoId PAGADO)
       (\<lambda>_. return_io \<lparr> success = True, referenciaPago = Some ref, error = None \<rparr>) w1
     = (Inr res, w')"
    unfolding registrarPago_def by (rule await_Inr)
  then obtain x2 w2 where
    "return_io \<lparr> success = True, referenciaPago = Some ref, error = None \<rparr> w2 = (Inr res, w')"
    by (rule await_Inr)
  then show ?thesis by (simp add: return_io_def)
qed

lemma procesarPago_try_result:
  assumes "procesarPago_try pedidoId info w = (Inr res, w')"
  shows "(\<exists>e. res = failure e)
       \<or> (\<exists>ref. res = \<lparr> success = True, referenciaPago = Some ref, error = None \<rparr>)"
proof -
  from assms obtain found :: "Pedido option" and w1 where rest:
    "(case found of
        None \<Rightarrow> return_io (failure (NoEncontrado pedidoId))
      | Some pedido \<Rightarrow>
          if getEstado pedido \<noteq> PENDIENTE then return_io (failure NoPendiente)
          else
            await (switch_metodoPago (getMetodoPago pedido) info) (\<lambda>chosen.
              case chosen of
                None \<Rightarrow> return_io (failure MetodoNoSoportado)
              | Some ref \<Rightarrow> registrarPago pedidoId ref)) w1 = (Inr res, w')"
    unfolding procesarPago_try_def by (rule await_Inr)
  show ?thesis
  proof (cases found)
    case None
    with rest show ?thesis by (auto simp: return_io_def)
  next
    case (Some pedido)
    show ?thesis
    proof (cases "getEstado pedido \<noteq> PENDIENTE")
      case True
      with Some rest show ?thesis by (auto simp: return_io_def)
    next
      case False
      with Some rest have
        "await (switch_metodoPago (getMetodoPago pedido) info) (\<lambda>chosen.
              case chosen of
                None \<Rightarrow> return_io (failure MetodoNoSoportado)
              | Some ref \<Rightarrow> registrarPago pedidoId ref) w1 = (Inr res, w')"
        by simp
      then obtain chosen w2 where last:
        "(case chosen of
                None \<Rightarrow> return_io (failure MetodoNoSoportado)
              | Some ref \<Rightarrow> registrarPago pedidoId ref) w2 = (Inr res, w')"
        by (rule await_Inr)
      show ?thesis
      proof (cases chosen)
        case None
        with last show ?thesis by (auto simp: return_io_def)
      next
        case (Some ref)
        with last have "registrarPago pedidoId ref w2 = (Inr res, w')" by simp
        from registrarPago_result [OF this] show ?thesis by blast
      qed
    qed
  qed
qed

lemma raises_reported_switch:
  "raises_reported w (switch_metodoPago metodo info w)"
  by (auto simp: raises_reported_def switch_metodoPago_frame)

lemma raises_reported_procesarPago_try:
  "raises_reported w (procesarPago_try pedidoId info w)"
  unfolding procesarPago_try_def
proof (rule raises_reported_await [OF raises_reported_findById])
  fix found :: "Pedido option" and w1
  show "raises_reported w1
     ((case found of
        None \<Rightarrow> return_io (failure (NoEncontrado pedidoId))
      | Some pedido \<Rightarrow>
          if getEstado pedido \<noteq> PENDIENTE then return_io (failure NoPendiente)
          else
            await (switch_metodoPago (getMetodoPago pedido) info) (\<lambda>chosen.
              case chosen of
                None \<Rightarrow> return_io (failure MetodoNoSoportado)
              | Some ref \<Rightarrow> registrarPago pedidoId ref)) w1)"
  proof (cases found)
    case None
    then show ?thesis by (simp add: return_io_def raises_reported_return)
  next
    case (Some pedido)
    have "raises_reported w1
       (await (switch_metodoPago (getMetodoPago pedido) info) (\<lambda>chosen.
              case chosen of
                None \<Rightarrow> return_io (failure MetodoNoSoportado)
              | Some ref \<Rightarrow> registrarPago pedidoId ref) w1)"
    proof (rule raises_reported_await [OF raises_reported_switch])
      fix chosen w2
      show "raises_reported w2
         ((case chosen of
                None \<Rightarrow> return_io (failure MetodoNoSoportado)
              | Some ref \<Rightarrow> registrarPago pedidoId ref) w2)"
        by (cases chosen)
          (simp_all add: return_io_def raises_reported_return raises_reported_registrarPago)
    qed
    with Some show ?thesis
      by (simp add: return_io_def raises_reported_return)
  qed
qed

lemmas eval_defs = procesarPago_def procesarPago_try_def switch_metodoPago_def registrarPago_def
  updateReferenciaPago_def updateEstado_def update_where_id_def findById_def mapToEntity_def
  execute_def await_def return_io_def new_Date_def random_1000_def
  mundo_ejemplo_def fila_ejemplo_def mundo_fallo_estado_def mundo_stripe_def mundo_entregado_def
  TRANSFERENCIA_def STRIPE_def failure_def new_Pedido_def props_of_row_def

lemma no_fault_next_iff:
  "no_fault_next n w \<longleftrightarrow> (\<forall>k<n. fault_at w (stmt w + k) = None)"
  by (auto simp: no_fault_next_def list_all_iff)

text \<open>A settlement of a pending order during which no statement raises.\<close>

lemma procesarPago_pending_ok:
  assumes row: "pedidos w pedidoId = Some row" and estado: "row_estado row = PENDIENTE"
    and nf: "no_fault_next 8 w"
    and sw: "switch_metodoPago (row_metodo_pago row) info (w\<lparr>stmt := stmt w + 2\<rparr>)
              = (Inr (Some ref), w2)"
  shows "procesarPago pedidoId info w =
    (Inr \<lparr> success = True, referenciaPago = Some ref, error = None \<rparr>,
     w2\<lparr>pedidos := (pedidos w)(pedidoId \<mapsto>
            row\<lparr>row_referencia_pago := Some ref, row_estado := PAGADO,
                 row_updated_at := date_at w2 (Suc (reads w2))\<rparr>),
        stmt := stmt w + 8, reads := Suc (Suc (reads w2))\<rparr>)"
proof -
  let ?w1 = "w\<lparr>stmt := stmt w + 2\<rparr>"
  let ?pedido = "new_Pedido (row_created_at row) (row_updated_at row)
                   (props_of_row row (pedido_items w (row_id row)))"
  have nf2: "no_fault_next 2 w"
    by (rule no_fault_next_less [OF nf]) simp
  have fb: "findById pedidoId w = (Inr (Some ?pedido), ?w1)"
    by (rule findById_ok [OF nf2 row])
  note frame = switch_metodoPago_outcome [OF sw]
  have "no_fault_next (2 + 6) w" using nf by simp
  then have nf6: "no_fault_next 6 w2"
    by (rule no_fault_next_shift) (simp_all add: frame)
  have row2: "pedidos w2 pedidoId = Some row"
    using frame(1) row by simp
  have "procesarPago_try pedidoId info w = registrarPago pedidoId ref w2"
    using fb sw estado
    by (simp add: procesarPago_try_def await_def getEstado_new_Pedido_row)
  also have "\<dots> = (Inr \<lparr> success = True, referenciaPago = Some ref, error = None \<rparr>,
     w2\<lparr>pedidos := (pedidos w2)(pedidoId \<mapsto>
            row\<lparr>row_referencia_pago := Some ref, row_estado := PAGADO,
                 row_updated_at := date_at w2 (Suc (reads w2))\<rparr>),
       stmt := stmt w2 + 6, reads := Suc (Suc (reads w2))\<rparr>)"
    by (rule registrarPago_ok [OF nf6 row2])
  finally show ?thesis
    by (simp add: procesarPago_def frame)
qed

lemma switch_transferencia_given:
  assumes "map_of properties ''referencia'' = Some ref" and "ref \<noteq> []"
  shows "switch_metodoPago TRANSFERENCIA (Payload properties) w = (Inr (Some ref), w)"
  using assms by (cases ref) (simp_all add: switch_metodoPago_def TRANSFERENCIA_def)

lemma switch_transferencia_absent:
  assumes "map_of properties ''referencia'' = None \<or> map_of properties ''referencia'' = Some []"
  shows "switch_metodoPago TRANSFERENCIA (Payload properties) w =
    (Inr (Some (''transfer_'' @ show_nat (date_at w (reads w)))), w\<lparr>reads := Suc (reads w)\<rparr>)"
  using assms by (auto simp: switch_metodoPago_def TRANSFERENCIA_def new_Date_def)

lemma getReferenciaPago_item_methods:
  "getReferenciaPago (addItem now item p) = getReferenciaPago p"
  "getReferenciaPago (removeItem now pid p) = getReferenciaPago p"
  "getReferenciaPago (updateItemCantidad now pid c p) = getReferenciaPago p"
  "getEstado (addItem now item p) = getEstado p"
  "getEstado (removeItem now pid p) = getEstado p"
  "getEstado (updateItemCantidad now pid c p) = getEstado p"
  by (simp_all add: addItem_def removeItem_def updateItemCantidad_def recalcularTotal_def
      split: option.split)

section \<open>Settling a payment\<close>

text \<open>
  C1. When the order exists and is not pending, \<open>procesarPago\<close> fails and leaves both
  tables as they were (state, payment reference and items of every order), whatever the
  storage layer does; when the two statements of the read do not raise, the error is
  the not-pending one. Hence after a successful settlement a second attempt on the same
  order, whose read does not raise, is rejected as not pending and leaves the tables as
  the first settlement left them.
\<close>

theorem procesarPago_rejects_not_pending:
  "(pedidos v pedidoId = Some row \<and> row_estado row \<noteq> PENDIENTE \<longrightarrow>
      same_tables (snd (procesarPago pedidoId info v)) v
      \<and> (\<exists>res. fst (procesarPago pedidoId info v) = Inr res \<and> \<not> success res)
      \<and> (no_fault_next 2 v \<longrightarrow>
           fst (procesarPago pedidoId info v) = Inr (failure NoPendiente)))
   \<and> (procesarPago pedidoId info1 w = (Inr res1, w1) \<and> success res1 \<and> no_fault_next 2 w1 \<longrightarrow>
        fst (procesarPago pedidoId info2 w1) = Inr (failure NoPendiente)
        \<and> same_tables (snd (procesarPago pedidoId info2 w1)) w1)"
proof (intro conjI impI)
  assume a: "pedidos v pedidoId = Some row \<and> row_estado row \<noteq> PENDIENTE"
  then have row: "pedidos v pedidoId = Some row" and estado: "row_estado row \<noteq> PENDIENTE"
    by simp_all
  show "same_tables (snd (procesarPago pedidoId info v)) v"
    by (rule procesarPago_not_pending(1) [OF row estado])
  show "\<exists>res. fst (procesarPago pedidoId info v) = Inr res \<and> \<not> success res"
    by (rule procesarPago_not_pending(2) [OF row estado])
  assume "no_fault_next 2 v"
  then show "fst (procesarPago pedidoId info v) = Inr (failure NoPendiente)"
    by (rule procesarPago_not_pending(3) [OF row estado])
next
  assume a: "procesarPago pedidoId info1 w = (Inr res1, w1) \<and> success res1 \<and> no_fault_next 2 w1"
  then have run: "procesarPago pedidoId info1 w = (Inr res1, w1)" and ok: "success res1"
    and nf: "no_fault_next 2 w1"
    by simp_all
  from procesarPago_success_paid [OF run ok]
  obtain row' where row': "pedidos w1 pedidoId = Some row'" "row_estado row' \<noteq> PENDIENTE"
    by auto
  show "fst (procesarPago pedidoId info2 w1) = Inr (failure NoPendiente)"
    by (rule procesarPago_not_pending(3) [OF row' nf])
  show "same_tables (snd (procesarPago pedidoId info2 w1)) w1"
    by (rule procesarPago_not_pending(1) [OF row'])
qed

theorem procesarPago_rejects_not_pending_witness:
  "fst (procesarPago 1 (Payload [(''referencia'', ''TR-1'')]) mundo_ejemplo)
     = Inr \<lparr> success = True, referenciaPago = Some ''TR-1'', error = None \<rparr>
   \<and> fst (procesarPago 1 (Payload [(''referencia'', ''TR-2'')])
            (snd (procesarPago 1 (Payload [(''referencia'', ''TR-1'')]) mundo_ejemplo)))
     = Inr (failure NoPendiente)
   \<and> same_tables
        (snd (procesarPago 1 (Payload [(''referencia'', ''TR-2'')])
               (snd (procesarPago 1 (Payload [(''referencia'', ''TR-1'')]) mundo_ejemplo))))
        (snd (procesarPago 1 (Payload [(''referencia'', ''TR-1'')]) mundo_ejemplo))"
proof -
  let ?w1 = "mundo_ejemplo\<lparr>pedidos := [1 \<mapsto> fila_ejemplo\<lparr>row_estado := PAGADO,
        row_referencia_pago := Some ''TR-1'', row_updated_at := 1001\<rparr>], stmt := 8, reads := 2\<rparr>"
  let ?res1 = "\<lparr> success = True, referenciaPago = Some ''TR-1'', error = None \<rparr>"
  have first: "procesarPago 1 (Payload [(''referencia'', ''TR-1'')]) mundo_ejemplo = (Inr ?res1, ?w1)"
    by (simp add: eval_defs)
  have nf: "no_fault_next 2 ?w1"
    by (simp add: no_fault_next_def list_all_iff mundo_ejemplo_def)
  have row: "pedidos ?w1 1 = Some (fila_ejemplo\<lparr>row_estado := PAGADO,
        row_referencia_pago := Some ''TR-1'', row_updated_at := 1001\<rparr>)"
    by simp
  have estado: "row_estado (fila_ejemplo\<lparr>row_estado := PAGADO,
        row_referencia_pago := Some ''TR-1'', row_updated_at := 1001\<rparr>) \<noteq> PENDIENTE"
    by simp
  have ok: "success ?res1" by simp
  show ?thesis
    using procesarPago_rejects_not_pending
      [where v = ?w1 and pedidoId = 1 and info = "Payload [(''referencia'', ''TR-2'')]"
         and row = "fila_ejemplo\<lparr>row_estado := PAGADO,
              row_referencia_pago := Some ''TR-1'', row_updated_at := 1001\<rparr>"
         and w = mundo_ejemplo and ?info1.0 = "Payload [(''referencia'', ''TR-1'')]"
         and ?res1.0 = ?res1 and ?w1.0 = ?w1 and ?info2.0 = "Payload [(''referencia'', ''TR-2'')]"]
      first nf row estado ok
    by (simp only: fst_conv snd_conv)
qed

text \<open>
  The bank-transfer branch on a payload that is not \<open>null\<close>, for a pending order and a
  run in which no statement raises: a \<open>referencia\<close> that is a non-empty string is
  the reference stored and returned, and the order is left paid; when that property is
  absent (or the empty string) the reference is the token \<open>transfer_\<close> followed by
  the clock reading.
\<close>

lemma procesarPago_transferencia_referencia:
  assumes "pedidos w pedidoId = Some row" and "row_estado row = PENDIENTE"
    and "row_metodo_pago row = TRANSFERENCIA" and "no_fault_next 8 w"
  shows "(map_of properties ''referencia'' = Some ref \<and> ref \<noteq> [] \<longrightarrow>
            fst (procesarPago pedidoId (Payload properties) w)
              = Inr \<lparr> success = True, referenciaPago = Some ref, error = None \<rparr>
            \<and> pedidos (snd (procesarPago pedidoId (Payload properties) w))
              = (pedidos w)(pedidoId \<mapsto>
                  row\<lparr>row_referencia_pago := Some ref, row_estado := PAGADO,
                       row_updated_at := date_at w (reads w + 1)\<rparr>))
       \<and> (map_of properties ''referencia'' = None \<or> map_of properties ''referencia'' = Some [] \<longrightarrow>
            fst (procesarPago pedidoId (Payload properties) w)
              = Inr \<lparr> success = True,
                      referenciaPago = Some (''transfer_'' @ show_nat (date_at w (reads w))),
                      error = None \<rparr>
            \<and> pedidos (snd (procesarPago pedidoId (Payload properties) w))
              = (pedidos w)(pedidoId \<mapsto>
                  row\<lparr>row_referencia_pago := Some (''transfer_'' @ show_nat (date_at w (reads w))),
                       row_estado := PAGADO,
                       row_updated_at := date_at w (reads w + 2)\<rparr>))"
proof (intro conjI impI)
  assume given: "map_of properties ''referencia'' = Some ref \<and> ref \<noteq> []"
  then have "switch_metodoPago (row_metodo_pago row) (Payload properties) (w\<lparr>stmt := stmt w + 2\<rparr>)
      = (Inr (Some ref), w\<lparr>stmt := stmt w + 2\<rparr>)"
    using assms(3) by (simp add: switch_transferencia_given)
  from procesarPago_pending_ok [OF assms(1,2,4) this]
  show "fst (procesarPago pedidoId (Payload properties) w)
          = Inr \<lparr> success = True, referenciaPago = Some ref, error = None \<rparr>"
    and "pedidos (snd (procesarPago pedidoId (Payload properties) w))
          = (pedidos w)(pedidoId \<mapsto>
              row\<lparr>row_referencia_pago := Some ref, row_estado := PAGADO,
                   row_updated_at := date_at w (reads w + 1)\<rparr>)"
    by simp_all
next
  assume absent: "map_of properties ''referencia'' = None \<or> map_of properties ''referencia'' = Some []"
  let ?ref = "''transfer_'' @ show_nat (date_at w (reads w))"
  from absent have "switch_metodoPago (row_metodo_pago row) (Payload properties) (w\<lparr>stmt := stmt w + 2\<rparr>)
      = (Inr (Some ?ref), w\<lparr>stmt := stmt w + 2, reads := Suc (reads w)\<rparr>)"
    using assms(3) by (simp add: switch_transferencia_absent)
  from procesarPago_pending_ok [OF assms(1,2,4) this]
  show "fst (procesarPago pedidoId (Payload properties) w)
          = Inr \<lparr> success = True, referenciaPago = Some ?ref, error = None \<rparr>"
    and "pedidos (snd (procesarPago pedidoId (Payload properties) w))
          = (pedidos w)(pedidoId \<mapsto>
              row\<lparr>row_referencia_pago := Some ?ref, row_estado := PAGADO,
                   row_updated_at := date_at w (reads w + 2)\<rparr>)"
    by simp_all
qed

lemma procesarPago_transferencia_referencia_example:
  "pedidos mundo_ejemplo 1 = Some fila_ejemplo
   \<and> row_estado fila_ejemplo = PENDIENTE
   \<and> row_metodo_pago fila_ejemplo = TRANSFERENCIA
   \<and> no_fault_next 8 mundo_ejemplo
   \<and> fst (procesarPago 1 (Payload [(''referencia'', ''TR-1'')]) mundo_ejemplo)
       = Inr \<lparr> success = True, referenciaPago = Some ''TR-1'', error = None \<rparr>
   \<and> pedidos (snd (procesarPago 1 (Payload [(''referencia'', ''TR-1'')]) mundo_ejemplo)) 1
       = Some (fila_ejemplo\<lparr>row_referencia_pago := Some ''TR-1'', row_estado := PAGADO,
                 row_updated_at := 1001\<rparr>)
   \<and> fst (procesarPago 1 (Payload [(''banco'', ''Banco XYZ'')]) mundo_ejemplo)
       = Inr \<lparr> success = True, referenciaPago = Some ''transfer_1000'', error = None \<rparr>"
proof -
  have row: "pedidos mundo_ejemplo 1 = Some fila_ejemplo"
    by (simp add: mundo_ejemplo_def)
  have estado: "row_estado fila_ejemplo = PENDIENTE"
    and metodo: "row_metodo_pago fila_ejemplo = TRANSFERENCIA"
    by (simp_all add: fila_ejemplo_def)
  have nf: "no_fault_next 8 mundo_ejemplo"
    by (simp add: no_fault_next_iff mundo_ejemplo_def)
  have given: "map_of [(''referencia'', ''TR-1'')] ''referencia'' = Some ''TR-1'' \<and> ''TR-1'' \<noteq> []"
    by simp
  have absent: "map_of [(''banco'', ''Banco XYZ'')] ''referencia'' = None"
    by simp
  have clock: "date_at mundo_ejemplo (reads mundo_ejemplo) = 1000"
    "date_at mundo_ejemplo (Suc (reads mundo_ejemplo)) = 1001"
    by (simp_all add: mundo_ejemplo_def)
  have digits: "show_nat 1000 = ''1000''"
    by (simp add: show_nat.simps digit_char_def)
  show ?thesis
    using procesarPago_transferencia_referencia [OF row estado metodo nf,
        of "[(''referencia'', ''TR-1'')]" "''TR-1''"]
      procesarPago_transferencia_referencia [OF row estado metodo nf,
        of "[(''banco'', ''Banco XYZ'')]" "''TR-1''"]
      row estado metodo nf given absent
    by (simp add: clock digits)
qed

text \<open>
  C7, evaluated where it fails. The bank-transfer branch reads the property
  \<open>referencia\<close> of the payload and nothing else. With the payload of the API
  documentation, which carries the proof of transfer as \<open>comprobante\<close>, the proof is
  dropped: the order is paid with the synthesized token as its reference. With no
  payload at all no token is synthesized: reading the property throws, and the call
  fails with the order still pending. Only a proof sent as \<open>referencia\<close> is recorded.
\<close>

theorem procesarPago_transferencia_comprobante:
  "fst (procesarPago 1
          (Payload [(''type'', ''transferencia''), (''comprobante'', ''TR-20230610-123456''),
                    (''banco'', ''Banco XYZ''), (''fecha'', ''2023-06-10'')])
          mundo_ejemplo)
     = Inr \<lparr> success = True, referenciaPago = Some ''transfer_1000'', error = None \<rparr>
   \<and> map_option row_referencia_pago
       (pedidos (snd (procesarPago 1
          (Payload [(''type'', ''transferencia''), (''comprobante'', ''TR-20230610-123456''),
                    (''banco'', ''Banco XYZ''), (''fecha'', ''2023-06-10'')])
          mundo_ejemplo)) 1)
     = Some (Some ''transfer_1000'')
   \<and> map_option row_estado
       (pedidos (snd (procesarPago 1
          (Payload [(''type'', ''transferencia''), (''comprobante'', ''TR-20230610-123456''),
                    (''banco'', ''Banco XYZ''), (''fecha'', ''2023-06-10'')])
          mundo_ejemplo)) 1)
     = Some PAGADO
   \<and> fst (procesarPago 1 Nullish mundo_ejemplo) = Inr (failure (Mensaje TypeError))
   \<and> pedidos (snd (procesarPago 1 Nullish mundo_ejemplo)) 1 = Some fila_ejemplo
   \<and> fst (procesarPago 1 (Payload [(''referencia'', ''TR-1'')]) mundo_ejemplo)
     = Inr \<lparr> success = True, referenciaPago = Some ''TR-1'', error = None \<rparr>"
  by (simp add: eval_defs show_nat.simps digit_char_def)

text \<open>
  C10. \<open>procesarPago\<close> always returns a result, never an exception: a success
  carrying a reference, or a failure carrying an error. Whenever a statement sent to
  the database during the call raises (the read or either write, or a re-read), the
  result is the failure carrying the message of that exception.
\<close>

theorem procesarPago_total:
  "\<exists>res. fst (procesarPago pedidoId info w) = Inr res
     \<and> (success res \<longrightarrow> referenciaPago res \<noteq> None \<and> error res = None)
     \<and> (\<not> success res \<longrightarrow> referenciaPago res = None \<and> error res \<noteq> None)
     \<and> (\<forall>k m. stmt w \<le> k \<and> k < stmt (snd (procesarPago pedidoId info w))
               \<and> fault_at w k = Some m
            \<longrightarrow> res = failure (Mensaje (StorageError m)))"
proof -
  obtain r w' where run: "procesarPago_try pedidoId info w = (r, w')"
    by (cases "procesarPago_try pedidoId info w")
  from raises_reported_procesarPago_try [of w pedidoId info] run
  have reported: "\<And>k m. stmt w \<le> k \<Longrightarrow> k < stmt w' \<Longrightarrow> fault_at w k = Some m
      \<Longrightarrow> r = Inl (StorageError m)"
    by (simp add: raises_reported_def)
  show ?thesis
  proof (cases r)
    case (Inl e)
    with run have out: "procesarPago pedidoId info w = (Inr (failure (Mensaje e)), w')"
      by (simp add: procesarPago_def)
    show ?thesis
      using reported Inl by (auto simp: out failure_def)
  next
    case (Inr res)
    with run have out: "procesarPago pedidoId info w = (Inr res, w')"
      by (simp add: procesarPago_def)
    from procesarPago_try_result [of pedidoId info w res w'] run Inr
    have "(\<exists>e. res = failure e)
       \<or> (\<exists>ref. res = \<lparr> success = True, referenciaPago = Some ref, error = None \<rparr>)"
      by simp
    then show ?thesis
      using reported Inr by (auto simp: out failure_def)
  qed
qed

theorem procesarPago_total_witness:
  "stmt mundo_fallo_estado \<le> 5
   \<and> 5 < stmt (snd (procesarPago 1 (Payload [(''referencia'', ''TR-1'')]) mundo_fallo_estado))
   \<and> fault_at mundo_fallo_estado 5 = Some ''Connection lost''
   \<and> fst (procesarPago 1 (Payload [(''referencia'', ''TR-1'')]) mundo_fallo_estado)
       = Inr (failure (Mensaje (StorageError ''Connection lost'')))"
proof -
  have sent: "stmt mundo_fallo_estado \<le> 5"
    "5 < stmt (snd (procesarPago 1 (Payload [(''referencia'', ''TR-1'')]) mundo_fallo_estado))"
    by (simp_all add: eval_defs)
  have raised: "fault_at mundo_fallo_estado 5 = Some ''Connection lost''"
    by (simp add: mundo_fallo_estado_def)
  from procesarPago_total [of 1 "Payload [(''referencia'', ''TR-1'')]" mundo_fallo_estado]
  obtain res where
    "fst (procesarPago 1 (Payload [(''referencia'', ''TR-1'')]) mundo_fallo_estado) = Inr res"
    and "\<forall>k m. stmt mundo_fallo_estado \<le> k
           \<and> k < stmt (snd (procesarPago 1 (Payload [(''referencia'', ''TR-1'')]) mundo_fallo_estado))
           \<and> fault_at mundo_fallo_estado k = Some m
         \<longrightarrow> res = failure (Mensaje (StorageError m))"
    by blast
  with sent raised show ?thesis by blast
qed

text \<open>
  C2, evaluated where it fails. The reference and the state are written by two separate
  statements with no transaction around them. When the second one raises, the stored
  order keeps the new reference and is still pending, and the caller is told the payment
  failed; the same state is stored, for any reader, between the two writes of a run
  that succeeds.
\<close>

theorem procesarPago_reference_without_paid:
  "fst (procesarPago 1 (Payload [(''referencia'', ''TR-1'')]) mundo_fallo_estado)
     = Inr (failure (Mensaje (StorageError ''Connection lost'')))
   \<and> map_option row_estado
       (pedidos (snd (procesarPago 1 (Payload [(''referencia'', ''TR-1'')]) mundo_fallo_estado)) 1)
     = Some PENDIENTE
   \<and> map_option row_referencia_pago
       (pedidos (snd (procesarPago 1 (Payload [(''referencia'', ''TR-1'')]) mundo_fallo_estado)) 1)
     = Some (Some ''TR-1'')
   \<and> map_option row_estado (pedidos (snd (updateReferenciaPago 1 ''TR-1'' mundo_ejemplo)) 1)
     = Some PENDIENTE
   \<and> map_option row_referencia_pago
       (pedidos (snd (updateReferenciaPago 1 ''TR-1'' mundo_ejemplo)) 1)
     = Some (Some ''TR-1'')"
  by (simp add: eval_defs)

text \<open>
  C8, evaluated where it fails. For an order to be paid by card the payload is never
  read and no gateway is called: a declined token, or no payload at all, gives the same
  successful result with a reference made from the clock and a random number, and the
  order is left paid. The \<open>paypal\<close> branch does the same.
\<close>

theorem procesarPago_stripe_ignores_payload:
  "fst (procesarPago 1 (Payload [(''token'', ''tok_chargeDeclined'')]) mundo_stripe)
     = Inr \<lparr> success = True, referenciaPago = Some ''stripe_1000_242'', error = None \<rparr>
   \<and> map_option row_estado
       (pedidos (snd (procesarPago 1 (Payload [(''token'', ''tok_chargeDeclined'')]) mundo_stripe)) 1)
     = Some PAGADO
   \<and> procesarPago 1 Nullish mundo_stripe
     = procesarPago 1 (Payload [(''token'', ''tok_chargeDeclined'')]) mundo_stripe
   \<and> fst (procesarPago 1 Nullish
            (mundo_ejemplo\<lparr>pedidos := [1 \<mapsto> fila_ejemplo\<lparr>row_metodo_pago := PAYPAL\<rparr>]\<rparr>))
     = Inr \<lparr> success = True, referenciaPago = Some ''paypal_1000_242'', error = None \<rparr>"
  by (simp add: eval_defs PAYPAL_def show_nat.simps digit_char_def)

section \<open>Changing the state of an order\<close>

text \<open>
  C3, as stated, fails: \<open>delivered \<rightarrow> pending\<close> is not in the transition table of
  the specification, and \<open>updateEstadoPedido\<close> performs it.
\<close>

theorem updateEstadoPedido_counterexample:
  "\<not> spec_legal_transition ENTREGADO PENDIENTE
   \<and> map_option row_estado (pedidos mundo_entregado 1) = Some ENTREGADO
   \<and> map_sum id (map_option getEstado) (fst (updateEstadoPedido 1 PENDIENTE mundo_entregado))
       = Inr (Some PENDIENTE)
   \<and> map_option row_estado (pedidos (snd (updateEstadoPedido 1 PENDIENTE mundo_entregado)) 1)
       = Some PENDIENTE"
  by (simp add: eval_defs updateEstadoPedido_def)

text \<open>
  C3, amended. For an existing order and any target state, in the table or not,
  \<open>updateEstadoPedido\<close> (when its three statements do not raise) stores the target
  state and the time of the call on that order, changes no other field, no item and no
  other order, and returns the order as re-read. The code has no invalid-transition
  error.
\<close>

theorem updateEstadoPedido_any_state:
  assumes "pedidos w ident = Some row" and "no_fault_next 3 w"
  shows "fst (updateEstadoPedido ident estado w) =
      Inr (Some (new_Pedido (row_created_at row) (date_at w (reads w))
                  (props_of_row (row\<lparr>row_estado := estado, row_updated_at := date_at w (reads w)\<rparr>)
                     (pedido_items w (row_id row)))))
    \<and> pedidos (snd (updateEstadoPedido ident estado w)) =
        (pedidos w)(ident \<mapsto> row\<lparr>row_estado := estado, row_updated_at := date_at w (reads w)\<rparr>)
    \<and> pedido_items (snd (updateEstadoPedido ident estado w)) = pedido_items w"
  using updateEstado_ok [OF assms(2,1), of estado]
  by (simp add: updateEstadoPedido_def)

theorem updateEstadoPedido_any_state_witness:
  "pedidos mundo_entregado 1
     = Some (fila_ejemplo\<lparr>row_estado := ENTREGADO, row_referencia_pago := Some ''TR-1''\<rparr>)
   \<and> no_fault_next 3 mundo_entregado
   \<and> pedidos (snd (updateEstadoPedido 1 PENDIENTE mundo_entregado)) 1
       = Some (fila_ejemplo\<lparr>row_estado := PENDIENTE, row_referencia_pago := Some ''TR-1'',
                 row_updated_at := 1000\<rparr>)"
proof -
  have row: "pedidos mundo_entregado 1
     = Some (fila_ejemplo\<lparr>row_estado := ENTREGADO, row_referencia_pago := Some ''TR-1''\<rparr>)"
    by (simp add: mundo_entregado_def mundo_ejemplo_def)
  have nf: "no_fault_next 3 mundo_entregado"
    by (simp add: no_fault_next_iff mundo_entregado_def mundo_ejemplo_def)
  have clock: "date_at mundo_entregado (reads mundo_entregado) = 1000"
    by (simp add: mundo_entregado_def mundo_ejemplo_def)
  show ?thesis
    using updateEstadoPedido_any_state [OF row nf, of PENDIENTE] row nf
    by (simp add: clock)
qed

section \<open>The payment reference of an order\<close>

text \<open>
  C6, as stated, fails: a creation request may carry a payment reference, which
  \<open>toEntity\<close> puts on the pending order it builds, and \<open>setReferenciaPago\<close> sets
  a reference on an order in any state.
\<close>

theorem referenciaPago_counterexample:
  "getEstado (toEntity 0 0 dto_con_referencia) = PENDIENTE
   \<and> getReferenciaPago (toEntity 0 0 dto_con_referencia) = Some ''ch_1234567890''
   \<and> getEstado (setReferenciaPago 20 ''TR-1'' pedido_ejemplo) = PENDIENTE
   \<and> getReferenciaPago (setReferenciaPago 20 ''TR-1'' pedido_ejemplo) = Some ''TR-1''"
  by (simp add: toEntity_def new_Pedido_def dto_con_referencia_def setReferenciaPago_def
      pedido_ejemplo_def)

text \<open>
  C6, amended. An order built by \<open>toEntity\<close> is pending and carries exactly the
  optional payment reference of the request, unset only when the request has none; the
  constructor stores the reference it is given; \<open>setReferenciaPago\<close> stores a
  reference in any state and leaves the state as it is; \<open>setEstado\<close> and every other
  mutator of the entity leave the reference as it is; and a successful \<open>procesarPago\<close>
  leaves the stored order paid, carrying the reference it returns.
\<close>

theorem referenciaPago_operations:
  "getEstado (toEntity now_c now_u dto) = PENDIENTE
   \<and> getReferenciaPago (toEntity now_c now_u dto) = dto_referenciaPago dto
   \<and> getReferenciaPago (new_Pedido now_c now_u props) = props_referenciaPago props
   \<and> getReferenciaPago (setReferenciaPago now r p) = Some r
   \<and> getEstado (setReferenciaPago now r p) = getEstado p
   \<and> getReferenciaPago (setEstado now e p) = getReferenciaPago p
   \<and> getReferenciaPago (setUsuarioId now u p) = getReferenciaPago p
   \<and> getReferenciaPago (setTotal now t p) = getReferenciaPago p
   \<and> getReferenciaPago (setDireccionEnvio now d p) = getReferenciaPago p
   \<and> getReferenciaPago (setMetodoPago now m p) = getReferenciaPago p
   \<and> getReferenciaPago (addItem now item p) = getReferenciaPago p
   \<and> getReferenciaPago (removeItem now pid p) = getReferenciaPago p
   \<and> getReferenciaPago (updateItemCantidad now pid c p) = getReferenciaPago p
   \<and> (procesarPago pedidoId info w = (Inr res, w') \<and> success res \<longrightarrow>
        (\<exists>row ref. pedidos w' pedidoId = Some row \<and> row_estado row = PAGADO
            \<and> row_referencia_pago row = Some ref \<and> referenciaPago res = Some ref))"
proof -
  have "procesarPago pedidoId info w = (Inr res, w') \<and> success res \<longrightarrow>
        (\<exists>row ref. pedidos w' pedidoId = Some row \<and> row_estado row = PAGADO
            \<and> row_referencia_pago row = Some ref \<and> referenciaPago res = Some ref)"
  proof
    assume "procesarPago pedidoId info w = (Inr res, w') \<and> success res"
    then have "procesarPago pedidoId info w = (Inr res, w')" and "success res"
      by simp_all
    from procesarPago_success_paid [OF this]
    show "\<exists>row ref. pedidos w' pedidoId = Some row \<and> row_estado row = PAGADO
            \<and> row_referencia_pago row = Some ref \<and> referenciaPago res = Some ref"
      by auto
  qed
  then show ?thesis
    by (simp add: toEntity_def new_Pedido_def setter_defs getReferenciaPago_item_methods)
qed

theorem referenciaPago_operations_witness:
  "procesarPago 1 (Payload [(''referencia'', ''TR-1'')]) mundo_ejemplo
     = (Inr \<lparr> success = True, referenciaPago = Some ''TR-1'', error = None \<rparr>,
        mundo_ejemplo\<lparr>pedidos := [1 \<mapsto> fila_ejemplo\<lparr>row_estado := PAGADO,
          row_referencia_pago := Some ''TR-1'', row_updated_at := 1001\<rparr>], stmt := 8, reads := 2\<rparr>)
   \<and> success \<lparr> success = True, referenciaPago = Some ''TR-1'', error = None \<rparr>
   \<and> map_option row_estado
        (pedidos (mundo_ejemplo\<lparr>pedidos := [1 \<mapsto> fila_ejemplo\<lparr>row_estado := PAGADO,
          row_referencia_pago := Some ''TR-1'', row_updated_at := 1001\<rparr>], stmt := 8, reads := 2\<rparr>) 1)
      = Some PAGADO"
proof -
  have run: "procesarPago 1 (Payload [(''referencia'', ''TR-1'')]) mundo_ejemplo
     = (Inr \<lparr> success = True, referenciaPago = Some ''TR-1'', error = None \<rparr>,
        mundo_ejemplo\<lparr>pedidos := [1 \<mapsto> fila_ejemplo\<lparr>row_estado := PAGADO,
          row_referencia_pago := Some ''TR-1'', row_updated_at := 1001\<rparr>], stmt := 8, reads := 2\<rparr>)"
    by (simp add: eval_defs)
  from referenciaPago_operations
    [where pedidoId = 1 and info = "Payload [(''referencia'', ''TR-1'')]" and w = mundo_ejemplo
       and res = "\<lparr> success = True, referenciaPago = Some ''TR-1'', error = None \<rparr>"
       and w' = "mundo_ejemplo\<lparr>pedidos := [1 \<mapsto> fila_ejemplo\<lparr>row_estado := PAGADO,
          row_referencia_pago := Some ''TR-1'', row_updated_at := 1001\<rparr>], stmt := 8, reads := 2\<rparr>"]
    run
  have "\<exists>row ref. pedidos (mundo_ejemplo\<lparr>pedidos := [1 \<mapsto> fila_ejemplo\<lparr>row_estado := PAGADO,
          row_referencia_pago := Some ''TR-1'', row_updated_at := 1001\<rparr>], stmt := 8, reads := 2\<rparr>) 1
        = Some row \<and> row_estado row = PAGADO \<and> row_referencia_pago row = Some ref
        \<and> referenciaPago \<lparr> success = True, referenciaPago = Some ''TR-1'', error = None \<rparr> = Some ref"
    by simp
  then have "map_option row_estado
        (pedidos (mundo_ejemplo\<lparr>pedidos := [1 \<mapsto> fila_ejemplo\<lparr>row_estado := PAGADO,
          row_referencia_pago := Some ''TR-1'', row_updated_at := 1001\<rparr>], stmt := 8, reads := 2\<rparr>) 1)
      = Some PAGADO"
    by auto
  with run show ?thesis by simp
qed

end
